theory Spec2Isabelle
  imports Complex_Main "HOL-Library.AList"
begin

section \<open>Python values\<close>

text \<open>
  The program is the Streamlit page \<^verbatim>\<open>src/pages/show.py\<close>. Its numbers are Python
  and numpy floats; they are modelled as exact \<^typ>\<open>real\<close> numbers, so a statement below
  speaks of the arithmetic the code writes down and not of binary rounding.

  A Python \<^verbatim>\<open>dict\<close> keeps its keys in insertion order and holds each key once. It is
  modelled as an association list: assigning to a key that is present replaces the value
  in place, assigning to a new key appends it (\<^const>\<open>AList.update\<close>), and \<^verbatim>\<open>del\<close>
  removes the entry (\<^const>\<open>AList.delete\<close>). Strings are UTF-8 byte lists: equality and
  splitting at the ASCII dash agree with Python's code-point strings.
\<close>

type_synonym 'v pydict = "(string \<times> 'v) list"

definition dict_get :: "'v pydict \<Rightarrow> string \<Rightarrow> 'v \<Rightarrow> 'v" where
  \<comment> \<open>\<^verbatim>\<open>d.get(k, dflt)\<close>\<close>
  "dict_get d k dflt = (case map_of d k of None \<Rightarrow> dflt | Some v \<Rightarrow> v)"

definition dict_merge :: "'v pydict \<Rightarrow> (string \<times> 'v) list \<Rightarrow> 'v pydict" where
  \<comment> \<open>\<^verbatim>\<open>{**d, **kvs}\<close>; with \<open>d = []\<close> a dict comprehension over the items \<open>kvs\<close>\<close>
  "dict_merge d kvs = fold (\<lambda>(k, v). AList.update k v) kvs d"

definition py_sum :: "real list \<Rightarrow> real" where
  "py_sum xs = sum_list xs"

section \<open>Data model\<close>

text \<open>
  \<^verbatim>\<open>categories\<close> maps a major name to \<^verbatim>\<open>{"ratio": r, "subcategories": {minor: r}}\<close>;
  \<^verbatim>\<open>assets_info\<close> maps a holding's name to
  \<^verbatim>\<open>{"code", "type", "remark", "amount", "category"}\<close>.
\<close>

record major_data =
  ratio :: real
  subcategories :: "real pydict"

type_synonym categories = "major_data pydict"

record asset =
  a_code :: string
  a_type :: string
  a_remark :: string
  a_amount :: real
  a_category :: string

definition DEFAULT_CATEGORIES :: categories where
  "DEFAULT_CATEGORIES =
    [([CHR 0xE5, CHR 0x80, CHR 0xBA, CHR 0xE5, CHR 0x88, CHR 0xB8],
      \<lparr>ratio = 0.40, subcategories =
        [([CHR 0xE5, CHR 0x88, CHR 0xA9, CHR 0xE7, CHR 0x8E, CHR 0x87, CHR ''/'',
           CHR 0xE5, CHR 0x9B, CHR 0xBD, CHR 0xE5, CHR 0x80, CHR 0xBA], 0.20),
         ([CHR 0xE4, CHR 0xBF, CHR 0xA1, CHR 0xE7, CHR 0x94, CHR 0xA8, CHR ''/'',
           CHR 0xE4, CHR 0xBF, CHR 0xA1, CHR 0xE7, CHR 0x94, CHR 0xA8], 0.20)]\<rparr>),
     ([CHR 0xE8, CHR 0x82, CHR 0xA1, CHR 0xE7, CHR 0xA5, CHR 0xA8],
      \<lparr>ratio = 0.40, subcategories =
        [([CHR 0xE5, CHR 0x86, CHR 0x85, CHR 0xE5, CHR 0x9C, CHR 0xB0, CHR ''/'',
           CHR 0xE6, CHR 0xB2, CHR 0xAA, CHR 0xE6, CHR 0xB7, CHR 0xB1], 0.10),
         ([CHR 0xE5, CHR 0x86, CHR 0x85, CHR 0xE5, CHR 0x9C, CHR 0xB0, CHR ''/'',
           CHR 0xE7, CHR 0xA7, CHR 0x91, CHR 0xE5, CHR 0x88, CHR 0x9B], 0.10),
         ([CHR 0xE5, CHR 0x86, CHR 0x85, CHR 0xE5, CHR 0x9C, CHR 0xB0, CHR ''/'',
           CHR 0xE7, CHR 0xBA, CHR 0xA2, CHR 0xE5, CHR 0x88, CHR 0xA9], 0.10),
         ([CHR 0xE5, CHR 0x85, CHR 0xA8, CHR 0xE7, CHR 0x90, CHR 0x83, CHR ''/'',
           CHR 0xE7, CHR 0xBE, CHR 0x8E, CHR 0xE8, CHR 0x82, CHR 0xA1], 0.10)]\<rparr>),
     ([CHR 0xE5, CHR 0x95, CHR 0x86, CHR 0xE5, CHR 0x93, CHR 0x81],
      \<lparr>ratio = 0.10, subcategories =
        [([CHR 0xE9, CHR 0xBB, CHR 0x84, CHR 0xE9, CHR 0x87, CHR 0x91], 0.10)]\<rparr>),
     ([CHR 0xE6, CHR 0x9C, CHR 0xBA, CHR 0xE5, CHR 0x8A, CHR 0xA8],
      \<lparr>ratio = 0.10, subcategories =
        [([CHR 0xE7, CHR 0x8E, CHR 0xB0, CHR 0xE9, CHR 0x87, CHR 0x91], 0.10)]\<rparr>)]"

section \<open>The user collection\<close>

text \<open>
  \<^verbatim>\<open>users_collection\<close> is the MongoDB collection, keyed by user name. A freshly registered
  document has neither an \<^verbatim>\<open>assets_info\<close> nor a \<^verbatim>\<open>categories\<close> field. A pymongo call
  raises when the server cannot be reached (\<^term>\<open>reachable w = False\<close>); every function
  below catches that in its \<^verbatim>\<open>except Exception\<close> branch. \<^verbatim>\<open>update_one\<close> without upsert
  changes nothing when no document matches, and does not raise.
\<close>

record user_doc =
  assets_info :: "asset pydict option"
  categories :: "categories option"

record world =
  current_username :: string
  reachable :: bool
  users_collection :: "user_doc pydict"

definition find_one :: "string \<Rightarrow> world \<Rightarrow> user_doc option option" where
  "find_one u w = (if reachable w then Some (map_of (users_collection w) u) else None)"

definition update_one :: "string \<Rightarrow> (user_doc \<Rightarrow> user_doc) \<Rightarrow> world \<Rightarrow> world option" where
  "update_one u f w =
     (if reachable w then
        Some (case map_of (users_collection w) u of
                None \<Rightarrow> w
              | Some d \<Rightarrow> w\<lparr>users_collection := AList.update u (f d) (users_collection w)\<rparr>)
      else None)"

definition get_user_config_from_db :: "world \<Rightarrow> (asset pydict \<times> categories) option" where
  "get_user_config_from_db w =
     (if current_username w = [] then Some ([], DEFAULT_CATEGORIES)
      else case find_one (current_username w) w of
             None \<Rightarrow> None
           | Some None \<Rightarrow> Some ([], DEFAULT_CATEGORIES)
           | Some (Some user) \<Rightarrow>
               Some (case assets_info user of None \<Rightarrow> [] | Some a \<Rightarrow> a,
                     case categories user of None \<Rightarrow> DEFAULT_CATEGORIES | Some c \<Rightarrow> c))"

definition stored_assets :: "world \<Rightarrow> asset pydict" where
  \<comment> \<open>the \<^verbatim>\<open>assets_info\<close> field of the current user's document, as stored\<close>
  "stored_assets w =
     (case map_of (users_collection w) (current_username w) of
        None \<Rightarrow> []
      | Some user \<Rightarrow> (case assets_info user of None \<Rightarrow> [] | Some a \<Rightarrow> a))"


text \<open>
  What the page shows through \<^verbatim>\<open>st.error\<close> and \<^verbatim>\<open>st.success\<close>. A message that formats a
  number carries the percentage its text shows: \<^verbatim>\<open>Error_major_total p\<close> has \<open>p\<close> printed
  from \<^verbatim>\<open>{total_major:.2%}\<close>, and \<^verbatim>\<open>Error_minor_total m p q\<close> has the major's name, \<open>p\<close>
  printed from \<^verbatim>\<open>{major_data['ratio']:.0%}\<close> and \<open>q\<close> from \<^verbatim>\<open>{total_minor:.0%}\<close>.
\<close>

datatype notice =
    Error_major_total real
  | Error_minor_total string real real
  | Error_save_failed
  | Success_categories_saved
  | Success_asset_added
  | Error_add_failed
  | Success_asset_updated
  | Error_update_failed
  | Success_asset_deleted string
  | Error_asset_missing
  | Error_delete_failed

section \<open>Category hierarchy\<close>

fun flatten_minor :: "string \<Rightarrow> (string \<times> real) list \<Rightarrow> real pydict \<Rightarrow> real pydict" where
  "flatten_minor major_name [] target_ratio_sub = target_ratio_sub"
| "flatten_minor major_name ((minor_name, minor_ratio) # rest) target_ratio_sub =
     flatten_minor major_name rest
       (AList.update (major_name @ ''-'' @ minor_name) minor_ratio target_ratio_sub)"

fun flatten_major :: "categories \<Rightarrow> real pydict \<Rightarrow> real pydict" where
  "flatten_major [] target_ratio_sub = target_ratio_sub"
| "flatten_major ((major_name, major_data) # rest) target_ratio_sub =
     flatten_major rest (flatten_minor major_name (subcategories major_data) target_ratio_sub)"

definition flatten_categories :: "categories \<Rightarrow> real pydict \<times> real pydict" where
  "flatten_categories cats =
     (dict_merge [] (map (\<lambda>(name, data). (name, ratio data)) cats), flatten_major cats [])"

text \<open>Invariants A and B in the specification's words.\<close>

definition invariant_A :: "categories \<Rightarrow> bool" where
  "invariant_A cats =
     (0.99 \<le> sum_list (map (ratio \<circ> snd) cats) \<and> sum_list (map (ratio \<circ> snd) cats) \<le> 1.01)"

definition invariant_B :: "categories \<Rightarrow> bool" where
  "invariant_B cats =
     list_all (\<lambda>major. 0.99 * ratio (snd major) \<le> sum_list (map snd (subcategories (snd major)))
                      \<and> sum_list (map snd (subcategories (snd major))) \<le> 1.01 * ratio (snd major))
       cats"

section \<open>Editing the holdings\<close>

definition add_asset_to_db :: "(string \<times> asset) list \<Rightarrow> world \<Rightarrow> bool \<times> notice \<times> world" where
  "add_asset_to_db asset_data w =
     (case get_user_config_from_db w of
        None \<Rightarrow> (False, Error_add_failed, w)
      | Some (current_assets, _) \<Rightarrow>
          (case update_one (current_username w)
                  (\<lambda>d. d\<lparr>assets_info := Some (dict_merge current_assets asset_data)\<rparr>) w of
             None \<Rightarrow> (False, Error_add_failed, w)
           | Some w' \<Rightarrow> (True, Success_asset_added, w')))"

definition update_asset_in_db :: "(string \<times> asset) list \<Rightarrow> world \<Rightarrow> bool \<times> notice \<times> world" where
  "update_asset_in_db asset_data w =
     (case get_user_config_from_db w of
        None \<Rightarrow> (False, Error_update_failed, w)
      | Some (current_assets, _) \<Rightarrow>
          (case update_one (current_username w)
                  (\<lambda>d. d\<lparr>assets_info := Some (dict_merge current_assets asset_data)\<rparr>) w of
             None \<Rightarrow> (False, Error_update_failed, w)
           | Some w' \<Rightarrow> (True, Success_asset_updated, w')))"

definition delete_asset_from_db :: "string \<Rightarrow> world \<Rightarrow> bool \<times> notice \<times> world" where
  "delete_asset_from_db asset_name w =
     (case get_user_config_from_db w of
        None \<Rightarrow> (False, Error_delete_failed, w)
      | Some (current_assets, _) \<Rightarrow>
          (if asset_name \<in> fst ` set current_assets then
             (case update_one (current_username w)
                     (\<lambda>d. d\<lparr>assets_info := Some (AList.delete asset_name current_assets)\<rparr>) w of
                None \<Rightarrow> (False, Error_delete_failed, w)
              | Some w' \<Rightarrow> (True, Success_asset_deleted asset_name, w'))
           else (False, Error_asset_missing, w)))"

section \<open>Numbers\<close>

text \<open>
  The frame's values are numpy floats: dividing by zero there raises nothing and yields
  \<^verbatim>\<open>nan\<close> (\<open>0/0\<close>) or an infinity. \<^verbatim>\<open>a // 100\<close> is the floor of the quotient, and
  \<^verbatim>\<open>round(x, 2)\<close> rounds to the nearest multiple of \<open>0.01\<close>, a tie going to the even one.
\<close>

datatype np_float = Finite real | Nan | Inf

definition np_div :: "real \<Rightarrow> real \<Rightarrow> np_float" where
  "np_div a b = (if b \<noteq> 0 then Finite (a / b) else if a = 0 then Nan else Inf)"

fun np_map :: "(real \<Rightarrow> real) \<Rightarrow> np_float \<Rightarrow> np_float" where
  "np_map f (Finite x) = Finite (f x)"
| "np_map f Nan = Nan"
| "np_map f Inf = Inf"

definition floordiv :: "real \<Rightarrow> real \<Rightarrow> real" where
  "floordiv a b = of_int \<lfloor>a / b\<rfloor>"

definition round_half_even :: "real \<Rightarrow> int" where
  "round_half_even x =
     (if x - of_int \<lfloor>x\<rfloor> < 1 / 2 then \<lfloor>x\<rfloor>
      else if 1 / 2 < x - of_int \<lfloor>x\<rfloor> then \<lfloor>x\<rfloor> + 1
      else if even \<lfloor>x\<rfloor> then \<lfloor>x\<rfloor> else \<lfloor>x\<rfloor> + 1)"

definition py_round :: "real \<Rightarrow> nat \<Rightarrow> real" where
  "py_round x ndigits = of_int (round_half_even (x * 10 ^ ndigits)) / 10 ^ ndigits"

fun split_dash :: "string \<Rightarrow> string list" where
  \<comment> \<open>\<^verbatim>\<open>s.split("-")\<close>\<close>
  "split_dash [] = [[]]"
| "split_dash (c # cs) =
     (if c = CHR ''-'' then [] # split_dash cs
      else (case split_dash cs of [] \<Rightarrow> [[c]] | p # ps \<Rightarrow> (c # p) # ps))"

datatype py_error = ValueError

section \<open>Snapshot valuation\<close>

text \<open>
  \<^verbatim>\<open>get_fund_price\<close> and \<^verbatim>\<open>get_price\<close> live in \<^verbatim>\<open>data_utils\<close>, outside the sources at
  hand: they are parameters. A lookup either raises (with the exception's text) or returns
  a frame, of which the page reads the \<^verbatim>\<open>close\<close> column; \<^term>\<open>Frame []\<close> is the empty
  frame.
\<close>

datatype lookup = Raises string | Frame "real list"

fun load_prices ::
  "(string \<Rightarrow> lookup) \<Rightarrow> (string \<Rightarrow> lookup) \<Rightarrow> (string \<times> asset) list
     \<Rightarrow> real list pydict \<times> (string \<times> string) list \<Rightarrow> real list pydict \<times> (string \<times> string) list"
where
  \<comment> \<open>the first loop: the dict \<^verbatim>\<open>A\<close> and the \<^verbatim>\<open>st.warning\<close> calls, by holding and text\<close>
  "load_prices get_fund_price get_price [] (A, warnings) = (A, warnings)"
| "load_prices get_fund_price get_price ((name, info) # rest) (A, warnings) =
     (if a_type info = ''fund'' then
        (case get_fund_price (a_code info) of
           Raises e \<Rightarrow> load_prices get_fund_price get_price rest (A, warnings @ [(name, e)])
         | Frame d \<Rightarrow> load_prices get_fund_price get_price rest (AList.update name d A, warnings))
      else if a_type info = ''etf'' then
        (case get_price (a_code info) of
           Raises e \<Rightarrow> load_prices get_fund_price get_price rest (A, warnings @ [(name, e)])
         | Frame d \<Rightarrow> load_prices get_fund_price get_price rest (AList.update name d A, warnings))
      else load_prices get_fund_price get_price rest (A, warnings))"

definition current_value :: "real list pydict \<Rightarrow> string \<Rightarrow> asset \<Rightarrow> real" where
  "current_value A name info =
     (if a_type info = ''cash'' then a_amount info
      else (case map_of A name of
              None \<Rightarrow> 0
            | Some d \<Rightarrow> if d \<noteq> [] then a_amount info * last d else 0))"

definition current_values :: "real list pydict \<Rightarrow> asset pydict \<Rightarrow> real pydict" where
  "current_values A assets =
     dict_merge [] (map (\<lambda>(name, info). (name, current_value A name info)) assets)"

text \<open>
  The frame \<^verbatim>\<open>df\<close>, one row per holding in the order of \<^verbatim>\<open>assets_info\<close>. The columns
  \<open>r_major\<close> and \<open>r_minor\<close> come from splitting the category at the dash; pandas accepts the
  two-column assignment only when the split yields exactly two columns, which is the
  longest split of any row, and rejects it with a \<^verbatim>\<open>ValueError\<close> otherwise.
\<close>

record df_row =
  r_name :: string
  r_code :: string
  r_type :: string
  r_amount :: real
  r_category :: string
  r_remark :: string
  r_value :: real
  r_major :: string
  r_minor :: "string option"

definition make_row :: "real pydict \<Rightarrow> string \<times> asset \<Rightarrow> df_row" where
  "make_row values = (\<lambda>(name, info).
     \<lparr>r_name = name, r_code = a_code info, r_type = a_type info, r_amount = a_amount info,
      r_category = a_category info, r_remark = a_remark info, r_value = dict_get values name 0,
      r_major = hd (split_dash (a_category info)),
      r_minor = (case split_dash (a_category info) of _ # minor # _ \<Rightarrow> Some minor | _ \<Rightarrow> None)\<rparr>)"

definition make_df :: "asset pydict \<Rightarrow> real pydict \<Rightarrow> py_error + df_row list" where
  "make_df assets values =
     (if fold max (map (\<lambda>(name, info). length (split_dash (a_category info))) assets) 0 = 2
      then Inr (map (make_row values) assets)
      else Inl ValueError)"

definition total_value :: "df_row list \<Rightarrow> real" where
  "total_value df = py_sum (map r_value df)"

definition groupby_sum :: "(df_row \<Rightarrow> string) \<Rightarrow> df_row list \<Rightarrow> string \<Rightarrow> real option" where
  \<comment> \<open>\<^verbatim>\<open>df.groupby(column)["value"].sum()\<close>, read by key\<close>
  "groupby_sum column df k =
     (if k \<in> column ` set df then Some (py_sum (map r_value (filter (\<lambda>r. column r = k) df)))
      else None)"

definition series_get :: "(string \<Rightarrow> real option) \<Rightarrow> string \<Rightarrow> real \<Rightarrow> real" where
  "series_get s k dflt = (case s k of None \<Rightarrow> dflt | Some v \<Rightarrow> v)"

section \<open>Deviation analysis\<close>

definition diff_of :: "real \<Rightarrow> (string \<Rightarrow> real option) \<Rightarrow> string \<Rightarrow> real \<Rightarrow> real" where
  \<comment> \<open>\<^verbatim>\<open>actual_value - target_value\<close> of one key\<close>
  "diff_of tot summary k tar = series_get summary k 0 - tot * tar"

definition diff_ratio_of :: "real \<Rightarrow> (string \<Rightarrow> real option) \<Rightarrow> string \<Rightarrow> real \<Rightarrow> np_float" where
  \<comment> \<open>\<^verbatim>\<open>diff / target_value * 100 if target_value != 0 else 0\<close>\<close>
  "diff_ratio_of tot summary k tar =
     (if tot * tar \<noteq> 0
      then np_map (\<lambda>q. q * 100) (np_div (diff_of tot summary k tar) (tot * tar))
      else Finite 0)"

definition sub_diff :: "real pydict \<Rightarrow> df_row list \<Rightarrow> real pydict" where
  "sub_diff target_ratio_sub df =
     dict_merge [] (map (\<lambda>(k, tar). (k, diff_of (total_value df) (groupby_sum r_category df) k tar))
                      target_ratio_sub)"

definition sub_diff_ratio :: "real pydict \<Rightarrow> df_row list \<Rightarrow> np_float pydict" where
  "sub_diff_ratio target_ratio_sub df =
     dict_merge [] (map (\<lambda>(k, tar). (k, diff_ratio_of (total_value df) (groupby_sum r_category df) k tar))
                      target_ratio_sub)"

definition cls_diff :: "real pydict \<Rightarrow> df_row list \<Rightarrow> real pydict" where
  "cls_diff target_ratio df =
     dict_merge [] (map (\<lambda>(k, tar). (k, diff_of (total_value df) (groupby_sum r_major df) k tar))
                      target_ratio)"

definition cls_diff_ratio :: "real pydict \<Rightarrow> df_row list \<Rightarrow> np_float pydict" where
  "cls_diff_ratio target_ratio df =
     dict_merge [] (map (\<lambda>(k, tar). (k, diff_ratio_of (total_value df) (groupby_sum r_major df) k tar))
                      target_ratio)"

text \<open>A row of the comparison tables; every number is rounded to two places.\<close>

record table_row =
  current_amount :: real
  current_ratio :: np_float
  target_amount :: real
  target_ratio_pct :: real
  diff_amount :: real
  diff_ratio :: np_float

definition table_rows ::
  "(df_row \<Rightarrow> string) \<Rightarrow> real pydict \<Rightarrow> real pydict \<Rightarrow> np_float pydict \<Rightarrow> df_row list
     \<Rightarrow> (string \<times> table_row) list" where
  "table_rows column targets diff_dict ratio_dict df =
     map (\<lambda>k.
        (k, \<lparr>current_amount = py_round (series_get (groupby_sum column df) k 0) 2,
             current_ratio = np_map (\<lambda>q. py_round (q * 100) 2)
                               (np_div (series_get (groupby_sum column df) k 0) (total_value df)),
             target_amount = py_round (total_value df * dict_get targets k 0) 2,
             target_ratio_pct = py_round (dict_get targets k 0 * 100) 2,
             diff_amount = py_round (dict_get diff_dict k 0) 2,
             diff_ratio = np_map (\<lambda>q. py_round q 2) (dict_get ratio_dict k (Finite 0))\<rparr>))
       (map fst targets)"

definition data_sub :: "real pydict \<Rightarrow> df_row list \<Rightarrow> (string \<times> table_row) list" where
  "data_sub target_ratio_sub df =
     table_rows r_category target_ratio_sub (sub_diff target_ratio_sub df)
       (sub_diff_ratio target_ratio_sub df) df"

definition cls_data :: "real pydict \<Rightarrow> df_row list \<Rightarrow> (string \<times> table_row) list" where
  "cls_data target_ratio df =
     table_rows r_major target_ratio (cls_diff target_ratio df) (cls_diff_ratio target_ratio df) df"

section \<open>Rebalancing advice\<close>

definition LIQUIDITY :: string where
  \<comment> \<open>the key of the cash bucket, major and minor joined by the dash\<close>
  "LIQUIDITY = [CHR 0xE6, CHR 0x9C, CHR 0xBA, CHR 0xE5, CHR 0x8A, CHR 0xA8, CHR ''-'',
                CHR 0xE7, CHR 0x8E, CHR 0xB0, CHR 0xE9, CHR 0x87, CHR 0x91]"

text \<open>
  One entry of \<^verbatim>\<open>adjustment\<close>: target ratio, current ratio, ratio gap, value gap and
  the relative gap the threshold is applied to.
\<close>

record adjust =
  adj_target :: real
  adj_current :: real
  adj_diff_ratio :: real
  adj_diff_value :: real
  adj_deviation_pct :: real

definition category_value :: "df_row list \<Rightarrow> string \<Rightarrow> real option" where
  "category_value df = groupby_sum r_category df"

definition current_ratio_of :: "df_row list \<Rightarrow> string \<Rightarrow> real option" where
  \<comment> \<open>\<^verbatim>\<open>{k: v / total_value for k, v in category_value.items()}\<close>, reached with a nonzero total only\<close>
  "current_ratio_of df k = map_option (\<lambda>v. v / total_value df) (category_value df k)"

definition adjust_of :: "df_row list \<Rightarrow> string \<Rightarrow> real \<Rightarrow> adjust" where
  "adjust_of df category target =
     \<lparr>adj_target = target,
      adj_current = series_get (current_ratio_of df) category 0,
      adj_diff_ratio = target - series_get (current_ratio_of df) category 0,
      adj_diff_value = total_value df * (target - series_get (current_ratio_of df) category 0),
      adj_deviation_pct =
        (if target > 0 then \<bar>target - series_get (current_ratio_of df) category 0\<bar> / target
         else 1)\<rparr>"

definition adjustment :: "real pydict \<Rightarrow> df_row list \<Rightarrow> adjust pydict" where
  "adjustment target_ratio_sub df =
     dict_merge []
       (map (\<lambda>(category, target). (category, adjust_of df category target))
          (filter (\<lambda>(category, target). category \<noteq> LIQUIDITY) target_ratio_sub))"

definition adj_type :: "adjust \<Rightarrow> string option" where
  \<comment> \<open>\<^verbatim>\<open>v.get("type")\<close>: an entry of \<^verbatim>\<open>adjustment\<close> has no such key\<close>
  "adj_type v = None"

definition significant_adj :: "adjust pydict \<Rightarrow> adjust pydict" where
  "significant_adj adjustments =
     filter (\<lambda>(k, v). 0.2 \<le> adj_deviation_pct v \<and> adj_type v \<noteq> Some ''cash'') adjustments"

definition major_deviation :: "adjust pydict \<Rightarrow> real pydict" where
  "major_deviation significant =
     fold (\<lambda>(category, adj) acc.
             AList.update (hd (split_dash category))
               (dict_get acc (hd (split_dash category)) 0 + adj_deviation_pct adj) acc)
       significant []"

definition adjust_shares :: "string \<Rightarrow> real \<Rightarrow> real \<Rightarrow> real" where
  \<comment> \<open>the rounding of \<^verbatim>\<open>base_shares\<close> by kind and direction; \<^verbatim>\<open>adjust_shares\<close> starts at 0\<close>
  "adjust_shares asset_type current_shares base_shares =
     (if asset_type = ''etf'' then
        (if base_shares > 0 then floordiv base_shares 100 * 100
         else if base_shares < 0 then
           (if \<bar>(floordiv base_shares 100 + 1) * 100\<bar> > current_shares
            then - (floordiv current_shares 100 * 100)
            else (floordiv base_shares 100 + 1) * 100)
         else 0)
      else if asset_type = ''fund'' then
        (if base_shares > 0 then py_round base_shares 2
         else if base_shares < 0 then
           (if \<bar>py_round base_shares 2\<bar> > current_shares
            then - py_round current_shares 2
            else py_round base_shares 2)
         else 0)
      else 0)"

text \<open>
  What the page shows for one holding: \<^verbatim>\<open>Increase name shares value\<close> (\<^verbatim>\<open>st.info\<close>),
  \<^verbatim>\<open>Decrease name shares value\<close> (\<^verbatim>\<open>st.warning\<close>, \<open>shares\<close> the magnitude), or nothing.
  With a zero \<^verbatim>\<open>category_total\<close> the holding's share of it is \<^verbatim>\<open>nan\<close> when its own value
  is zero: every comparison with \<^verbatim>\<open>nan\<close> is false, \<^verbatim>\<open>adjust_shares\<close> stays 0 and nothing
  is shown. A nonzero value over a zero total is an infinity, which the model does not
  follow (\<^verbatim>\<open>Not_finite\<close>).
\<close>

datatype asset_advice =
    Increase string real real
  | Decrease string real real
  | No_change string
  | Not_finite string

definition unit_value_of :: "df_row \<Rightarrow> real" where
  "unit_value_of r = (if r_amount r > 0 then r_value r / r_amount r else 1)"

definition show_advice :: "df_row \<Rightarrow> real \<Rightarrow> asset_advice" where
  "show_advice r shares =
     (if shares > 0 then Increase (r_name r) shares (shares * unit_value_of r)
      else if shares < 0 then Decrease (r_name r) \<bar>shares\<bar> (\<bar>shares\<bar> * unit_value_of r)
      else No_change (r_name r))"

definition asset_suggestion :: "real \<Rightarrow> real \<Rightarrow> df_row \<Rightarrow> asset_advice" where
  "asset_suggestion diff_value category_total r =
     (case np_div (r_value r) category_total of
        Finite asset_value_ratio \<Rightarrow>
          show_advice r
            (if unit_value_of r > 0
             then adjust_shares (r_type r) (r_amount r)
                    (diff_value * asset_value_ratio / unit_value_of r)
             else 0)
      | Nan \<Rightarrow> No_change (r_name r)
      | Inf \<Rightarrow> (if unit_value_of r > 0 then Not_finite (r_name r) else No_change (r_name r)))"

datatype block_body = Holdings "asset_advice list" | No_holdings string

record block =
  b_category :: string
  b_adjust :: adjust
  b_body :: block_body

definition category_assets :: "df_row list \<Rightarrow> string \<Rightarrow> df_row list" where
  "category_assets df category = filter (\<lambda>r. r_category r = category) df"

definition category_block :: "df_row list \<Rightarrow> string \<Rightarrow> string \<Rightarrow> adjust \<Rightarrow> block" where
  "category_block df category minor adj =
     \<lparr>b_category = category, b_adjust = adj,
      b_body =
        (if category_assets df category \<noteq> [] then
           Holdings (map (asset_suggestion (adj_diff_value adj)
                            (py_sum (map r_value (category_assets df category))))
                       (category_assets df category))
         else No_holdings minor)\<rparr>"

text \<open>
  The loop over \<^verbatim>\<open>significant_adj\<close>. \<^verbatim>\<open>major, minor = category.split("-")\<close> raises a
  \<^verbatim>\<open>ValueError\<close> unless the key has exactly one dash; what was shown before stays shown.
\<close>

fun detail_blocks :: "df_row list \<Rightarrow> (string \<times> adjust) list \<Rightarrow> block list \<times> py_error option" where
  "detail_blocks df [] = ([], None)"
| "detail_blocks df ((category, adj) # rest) =
     (case split_dash category of
        [major, minor] \<Rightarrow>
          (category_block df category minor adj # fst (detail_blocks df rest),
           snd (detail_blocks df rest))
      | _ \<Rightarrow> ([], Some ValueError))"

datatype advice =
    Info_add_assets
  | Warning_zero_total
  | Success_balanced
  | Rebalance "real pydict" "block list" "py_error option"

definition rebalance_advice :: "real pydict \<Rightarrow> df_row list \<Rightarrow> advice" where
  "rebalance_advice target_ratio_sub df =
     (if df = [] \<or> target_ratio_sub = [] then Info_add_assets
      else if total_value df = 0 then Warning_zero_total
      else if significant_adj (adjustment target_ratio_sub df) = [] then Success_balanced
      else Rebalance (major_deviation (significant_adj (adjustment target_ratio_sub df)))
             (fst (detail_blocks df (significant_adj (adjustment target_ratio_sub df))))
             (snd (detail_blocks df (significant_adj (adjustment target_ratio_sub df)))))"

section \<open>Declaration order\<close>

text \<open>
  The subcategory keys of a hierarchy in the order it declares them, and the order in
  which a dict keeps keys that are assigned more than once: that of their first
  assignment.
\<close>

fun first_occurrence :: "'a list \<Rightarrow> 'a list" where
  "first_occurrence [] = []"
| "first_occurrence (x # xs) = x # filter (\<lambda>y. y \<noteq> x) (first_occurrence xs)"

definition declared_keys :: "categories \<Rightarrow> string list" where
  "declared_keys cats =
     concat (map (\<lambda>(major_name, major_data).
                    map (\<lambda>(minor_name, minor_ratio). major_name @ ''-'' @ minor_name)
                      (subcategories major_data)) cats)"

definition declared_items :: "categories \<Rightarrow> (string \<times> real) list" where
  "declared_items cats =
     concat (map (\<lambda>(major_name, major_data).
                    map (\<lambda>(minor_name, minor_ratio). (major_name @ ''-'' @ minor_name, minor_ratio))
                      (subcategories major_data)) cats)"

section \<open>The lookup made for a holding\<close>

text \<open>
  Which price source the first loop asks for a holding, if any, and the warning that
  loop shows for it.
\<close>

definition lookup_for :: "(string \<Rightarrow> lookup) \<Rightarrow> (string \<Rightarrow> lookup) \<Rightarrow> asset \<Rightarrow> lookup option" where
  "lookup_for get_fund_price get_price info =
     (if a_type info = ''fund'' then Some (get_fund_price (a_code info))
      else if a_type info = ''etf'' then Some (get_price (a_code info))
      else None)"

definition warning_of :: "(string \<Rightarrow> lookup) \<Rightarrow> (string \<Rightarrow> lookup) \<Rightarrow> string \<times> asset \<Rightarrow> (string \<times> string) list" where
  "warning_of get_fund_price get_price = (\<lambda>(name, info).
     (case lookup_for get_fund_price get_price info of Some (Raises e) \<Rightarrow> [(name, e)] | _ \<Rightarrow> []))"

section \<open>From holdings to advice\<close>

text \<open>
  The computation behind the page's button, as far as the advice needs it: value the
  holdings, build the frame, flatten the hierarchy, advise.
\<close>

definition portfolio_advice ::
  "(string \<Rightarrow> lookup) \<Rightarrow> (string \<Rightarrow> lookup) \<Rightarrow> asset pydict \<Rightarrow> categories \<Rightarrow> py_error + advice" where
  "portfolio_advice get_fund_price get_price assets cats =
     (case make_df assets
             (current_values (fst (load_prices get_fund_price get_price assets ([], []))) assets) of
        Inl e \<Rightarrow> Inl e
      | Inr df \<Rightarrow> Inr (rebalance_advice (snd (flatten_categories cats)) df))"

section \<open>Floating-point arithmetic\<close>

text \<open>
  The page computes with binary floating-point numbers. Where the outcome of a
  comparison decides what the page does, the functions below take the arithmetic as a
  parameter: what a decimal literal denotes, the four operations, \<^verbatim>\<open>abs\<close>, the
  comparisons, Python's \<^verbatim>\<open>sum\<close> of a list of floats (\<open>builtin_sum\<close>), the sum pandas takes
  of a column (\<open>series_sum\<close>) and of a group of a grouped column (\<open>group_sum\<close>), and the
  percentage a format specification \<^verbatim>\<open>.n%\<close> prints. A theorem stated for every such arithmetic holds for the
  one the interpreter uses, with its rounding, infinities and \<^verbatim>\<open>nan\<close> (any countable set
  of values can be named by real numbers, and the comparisons are parameters too).
\<close>

record arith =
  lit :: "real \<Rightarrow> real"
  f_add :: "real \<Rightarrow> real \<Rightarrow> real"
  f_sub :: "real \<Rightarrow> real \<Rightarrow> real"
  f_mul :: "real \<Rightarrow> real \<Rightarrow> real"
  f_div :: "real \<Rightarrow> real \<Rightarrow> real"
  f_abs :: "real \<Rightarrow> real"
  f_le :: "real \<Rightarrow> real \<Rightarrow> bool"
  f_lt :: "real \<Rightarrow> real \<Rightarrow> bool"
  f_eq :: "real \<Rightarrow> real \<Rightarrow> bool"
  builtin_sum :: "real list \<Rightarrow> real"
  series_sum :: "real list \<Rightarrow> real"
  group_sum :: "real list \<Rightarrow> real"
  percent :: "nat \<Rightarrow> real \<Rightarrow> real"

definition exact_arith :: arith where
  \<comment> \<open>arithmetic without rounding, as in the definitions of the sections above\<close>
  "exact_arith =
     \<lparr>lit = (\<lambda>x. x), f_add = (\<lambda>x y. x + y), f_sub = (\<lambda>x y. x - y), f_mul = (\<lambda>x y. x * y),
      f_div = (\<lambda>x y. x / y), f_abs = (\<lambda>x. \<bar>x\<bar>), f_le = (\<lambda>x y. x \<le> y), f_lt = (\<lambda>x y. x < y),
      f_eq = (\<lambda>x y. x = y), builtin_sum = sum_list, series_sum = sum_list,
      group_sum = sum_list,
      percent = (\<lambda>n x. py_round (x * 100) n)\<rparr>"

text \<open>
  Binary64 with rounding to nearest, ties to even: \<open>fl x\<close> is the double nearest to \<open>x\<close>,
  for \<open>x\<close> in the normal range (no overflow, no subnormal numbers). \<open>expo n x\<close> is the
  binary exponent of a positive \<open>x\<close>, found in at most \<open>n\<close> halvings or doublings. The sum
  of a column is taken from left to right (as numpy does for fewer than eight values), the
  sum of a group with the compensation pandas applies (\<open>kahan\<close>); \<^verbatim>\<open>.n%\<close> multiplies by 100
  and prints the product rounded to \<open>n\<close> places. Python's \<^verbatim>\<open>sum\<close> adds from left to right
  up to CPython 3.11 (\<open>ieee_arith\<close>) and with Neumaier's compensation from CPython 3.12 on
  (\<open>ieee_arith_compensated\<close>). These arithmetics are used at concrete inputs only.
\<close>

primrec expo :: "nat \<Rightarrow> real \<Rightarrow> int" where
  "expo 0 x = 0"
| "expo (Suc n) x =
     (if 2 \<le> x then expo n (x / 2) + 1
      else if x < 1 then expo n (x * 2) - 1
      else 0)"

definition pow2 :: "int \<Rightarrow> real" where
  "pow2 e = (if 0 \<le> e then 2 ^ nat e else 1 / 2 ^ nat (- e))"

definition fl :: "real \<Rightarrow> real" where
  "fl x =
     (if x = 0 then 0
      else of_int (round_half_even (x / pow2 (expo 2200 \<bar>x\<bar> - 52))) * pow2 (expo 2200 \<bar>x\<bar> - 52))"

fun kahan :: "real \<Rightarrow> real \<Rightarrow> real list \<Rightarrow> real" where
  "kahan s c [] = s"
| "kahan s c (v # vs) = kahan (fl (s + fl (v - c))) (fl (fl (fl (s + fl (v - c)) - s) - fl (v - c))) vs"

definition ieee_arith :: arith where
  "ieee_arith =
     \<lparr>lit = fl, f_add = (\<lambda>x y. fl (x + y)), f_sub = (\<lambda>x y. fl (x - y)),
      f_mul = (\<lambda>x y. fl (x * y)), f_div = (\<lambda>x y. fl (x / y)), f_abs = (\<lambda>x. \<bar>x\<bar>),
      f_le = (\<lambda>x y. x \<le> y), f_lt = (\<lambda>x y. x < y), f_eq = (\<lambda>x y. x = y),
      builtin_sum = foldl (\<lambda>s x. fl (s + x)) 0,
      series_sum = foldl (\<lambda>s x. fl (s + x)) 0, group_sum = kahan 0 0,
      percent = (\<lambda>n x. py_round (fl (x * 100)) n)\<rparr>"




section \<open>Saving the category hierarchy\<close>

definition total_major :: "arith \<Rightarrow> categories \<Rightarrow> real" where
  "total_major a cats = builtin_sum a (map (\<lambda>(name, data). ratio data) cats)"

definition total_minor :: "arith \<Rightarrow> major_data \<Rightarrow> real" where
  "total_minor a major_data = builtin_sum a (map snd (subcategories major_data))"

definition major_check :: "arith \<Rightarrow> categories \<Rightarrow> bool" where
  \<comment> \<open>\<^verbatim>\<open>0.99 <= total_major <= 1.01\<close>\<close>
  "major_check a cats =
     (f_le a (lit a 0.99) (total_major a cats) \<and> f_le a (total_major a cats) (lit a 1.01))"

definition minor_check :: "arith \<Rightarrow> major_data \<Rightarrow> bool" where
  \<comment> \<open>\<^verbatim>\<open>0.99 * major_data["ratio"] <= total_minor <= 1.01 * major_data["ratio"]\<close>\<close>
  "minor_check a major_data =
     (f_le a (f_mul a (lit a 0.99) (ratio major_data)) (total_minor a major_data)
      \<and> f_le a (total_minor a major_data) (f_mul a (lit a 1.01) (ratio major_data)))"

fun first_minor_violation :: "arith \<Rightarrow> categories \<Rightarrow> notice option" where
  "first_minor_violation a [] = None"
| "first_minor_violation a ((major_name, major_data) # rest) =
     (if \<not> minor_check a major_data
      then Some (Error_minor_total major_name (percent a 0 (ratio major_data))
                   (percent a 0 (total_minor a major_data)))
      else first_minor_violation a rest)"

definition save_categories_to_db :: "arith \<Rightarrow> categories \<Rightarrow> world \<Rightarrow> bool \<times> notice \<times> world" where
  "save_categories_to_db a cats w =
     (if \<not> major_check a cats
      then (False, Error_major_total (percent a 2 (total_major a cats)), w)
      else case first_minor_violation a cats of
             Some e \<Rightarrow> (False, e, w)
           | None \<Rightarrow>
               (case update_one (current_username w) (\<lambda>d. d\<lparr>categories := Some cats\<rparr>) w of
                  None \<Rightarrow> (False, Error_save_failed, w)
                | Some w' \<Rightarrow> (True, Success_categories_saved, w')))"


section \<open>The threshold in floating point\<close>

text \<open>
  The advisor's choice of the subcategories to act on (the lines from
  \<^verbatim>\<open>category_value\<close> to \<^verbatim>\<open>significant_adj\<close>), the loop that shows a block for each of them,
  and the analyzer's deviation percentage, with the arithmetic as a parameter. What a
  block holds for its holdings is the parameter \<open>body\<close>.
\<close>

definition fl_total_value :: "arith \<Rightarrow> df_row list \<Rightarrow> real" where
  "fl_total_value a df = series_sum a (map r_value df)"

definition fl_category_value :: "arith \<Rightarrow> df_row list \<Rightarrow> string \<Rightarrow> real option" where
  "fl_category_value a df k =
     (if k \<in> r_category ` set df
      then Some (group_sum a (map r_value (filter (\<lambda>r. r_category r = k) df)))
      else None)"

definition fl_current_ratio :: "arith \<Rightarrow> df_row list \<Rightarrow> string \<Rightarrow> real option" where
  "fl_current_ratio a df k =
     map_option (\<lambda>v. f_div a v (fl_total_value a df)) (fl_category_value a df k)"

definition fl_gap :: "arith \<Rightarrow> df_row list \<Rightarrow> string \<Rightarrow> real \<Rightarrow> real" where
  \<comment> \<open>\<^verbatim>\<open>abs(diff_ratio) / target if target > 0 else 1.0\<close>\<close>
  "fl_gap a df category target =
     (if f_lt a 0 target
      then f_div a (f_abs a (f_sub a target (series_get (fl_current_ratio a df) category 0))) target
      else lit a 1)"

definition fl_adjust_of :: "arith \<Rightarrow> df_row list \<Rightarrow> string \<Rightarrow> real \<Rightarrow> adjust" where
  "fl_adjust_of a df category target =
     \<lparr>adj_target = target,
      adj_current = series_get (fl_current_ratio a df) category 0,
      adj_diff_ratio = f_sub a target (series_get (fl_current_ratio a df) category 0),
      adj_diff_value =
        f_mul a (fl_total_value a df)
          (f_sub a target (series_get (fl_current_ratio a df) category 0)),
      adj_deviation_pct = fl_gap a df category target\<rparr>"

definition fl_adjustment :: "arith \<Rightarrow> real pydict \<Rightarrow> df_row list \<Rightarrow> adjust pydict" where
  "fl_adjustment a target_ratio_sub df =
     dict_merge []
       (map (\<lambda>(category, target). (category, fl_adjust_of a df category target))
          (filter (\<lambda>(category, target). category \<noteq> LIQUIDITY) target_ratio_sub))"

definition fl_significant_adj :: "arith \<Rightarrow> adjust pydict \<Rightarrow> adjust pydict" where
  "fl_significant_adj a adjustments =
     filter (\<lambda>(k, v). f_le a (lit a 0.2) (adj_deviation_pct v) \<and> adj_type v \<noteq> Some ''cash'')
       adjustments"


definition fl_major_deviation :: "arith \<Rightarrow> adjust pydict \<Rightarrow> real pydict" where
  "fl_major_deviation a significant =
     fold (\<lambda>(category, adj) acc.
             AList.update (hd (split_dash category))
               (f_add a (dict_get acc (hd (split_dash category)) 0) (adj_deviation_pct adj)) acc)
       significant []"

fun detail_loop ::
  "(string \<Rightarrow> string \<Rightarrow> adjust \<Rightarrow> block_body) \<Rightarrow> (string \<times> adjust) list
     \<Rightarrow> block list \<times> py_error option" where
  "detail_loop body [] = ([], None)"
| "detail_loop body ((category, adj) # rest) =
     (case split_dash category of
        [major, minor] \<Rightarrow>
          (\<lparr>b_category = category, b_adjust = adj, b_body = body category minor adj\<rparr>
             # fst (detail_loop body rest),
           snd (detail_loop body rest))
      | _ \<Rightarrow> ([], Some ValueError))"

definition fl_rebalance_advice ::
  "arith \<Rightarrow> (string \<Rightarrow> string \<Rightarrow> adjust \<Rightarrow> block_body) \<Rightarrow> real pydict \<Rightarrow> df_row list \<Rightarrow> advice"
where
  "fl_rebalance_advice a body target_ratio_sub df =
     (if df = [] \<or> target_ratio_sub = [] then Info_add_assets
      else if f_eq a (fl_total_value a df) 0 then Warning_zero_total
      else if fl_significant_adj a (fl_adjustment a target_ratio_sub df) = [] then Success_balanced
      else Rebalance (fl_major_deviation a (fl_significant_adj a (fl_adjustment a target_ratio_sub df)))
             (fst (detail_loop body (fl_significant_adj a (fl_adjustment a target_ratio_sub df))))
             (snd (detail_loop body (fl_significant_adj a (fl_adjustment a target_ratio_sub df)))))"


definition one_dash :: "string \<Rightarrow> bool" where
  "one_dash category = (length (split_dash category) = 2)"

definition fl_diff_ratio_of :: "arith \<Rightarrow> real \<Rightarrow> real \<Rightarrow> real \<Rightarrow> real" where
  \<comment> \<open>\<^verbatim>\<open>(actual_value - target_value) / target_value * 100 if target_value != 0 else 0\<close>\<close>
  "fl_diff_ratio_of a tot actual tar =
     (if \<not> f_eq a (f_mul a tot tar) 0
      then f_mul a (f_div a (f_sub a actual (f_mul a tot tar)) (f_mul a tot tar)) 100
      else 0)"


section \<open>Example inputs\<close>

text \<open>
  Concrete users, hierarchies, holdings, price sources and frame rows at which the
  theorems below are instantiated and the code is evaluated.
\<close>

definition w0 :: world where
  "w0 = \<lparr>current_username = ''ann'', reachable = True,
         users_collection = [(''bob'', \<lparr>assets_info = None, categories = None\<rparr>),
                             (''ann'', \<lparr>assets_info = None, categories = None\<rparr>)]\<rparr>"

definition cats_ok :: categories where
  "cats_ok = [(''A'', \<lparr>ratio = 0.6, subcategories = [(''x'', 0.3), (''y'', 0.3)]\<rparr>),
              (''B'', \<lparr>ratio = 0.4, subcategories = [(''z'', 0.4)]\<rparr>)]"

definition cats_bad_major :: categories where
  "cats_bad_major = [(''A'', \<lparr>ratio = 0.47, subcategories = [(''x'', 0.47)]\<rparr>),
              (''B'', \<lparr>ratio = 0.4, subcategories = [(''z'', 0.4)]\<rparr>)]"

definition cats_bad_minor :: categories where
  "cats_bad_minor = [(''A'', \<lparr>ratio = 0.6, subcategories = [(''x'', 0.3), (''y'', 0.3)]\<rparr>),
              (''B'', \<lparr>ratio = 0.4, subcategories = [(''z'', 0.3)]\<rparr>)]"

definition ex_bond :: asset where
  "ex_bond = \<lparr>a_code = ''sh511260'', a_type = ''etf'', a_remark = ''ten-year'', a_amount = 1000,
              a_category = ''A-X''\<rparr>"

definition ex_bond_new :: asset where
  "ex_bond_new = \<lparr>a_code = ''000001'', a_type = ''fund'', a_remark = [], a_amount = 12.5,
              a_category = ''B-Z''\<rparr>"

definition ex_gold :: asset where
  "ex_gold = \<lparr>a_code = ''sh518880'', a_type = ''etf'', a_remark = [], a_amount = 300,
              a_category = ''B-Z''\<rparr>"

definition w1 :: world where
  "w1 = \<lparr>current_username = ''ann'', reachable = True,
         users_collection =
           [(''bob'', \<lparr>assets_info = Some [(''bond'', ex_gold)], categories = None\<rparr>),
            (''ann'', \<lparr>assets_info = Some [(''bond'', ex_bond), (''gold'', ex_gold)],
                      categories = None\<rparr>)]\<rparr>"

definition ex_row :: df_row where
  "ex_row = \<lparr>r_name = ''bond'', r_code = ''sh511260'', r_type = ''etf'', r_amount = 1000,
             r_category = ''A-x'', r_remark = [], r_value = 1234.567, r_major = ''A'',
             r_minor = Some ''x''\<rparr>"

definition ex_cash :: asset where
  "ex_cash = \<lparr>a_code = [], a_type = ''cash'', a_remark = [], a_amount = 5000,
              a_category = ''C-c''\<rparr>"

definition ex_assets :: "asset pydict" where
  "ex_assets = [(''wallet'', ex_cash), (''bond'', ex_bond), (''gold'', ex_gold)]"

definition ex_get_fund_price :: "string \<Rightarrow> lookup" where
  "ex_get_fund_price c = Raises ''timeout''"

definition ex_get_price :: "string \<Rightarrow> lookup" where
  "ex_get_price c = (if c = ''sh511260'' then Raises ''no route'' else Frame [2.4, 2.5])"

definition ex_targets :: "real pydict" where
  "ex_targets = [(''A-x'', 0.5), (''A-y'', 0), (LIQUIDITY, 0.5)]"

definition row_idle :: df_row where
  "row_idle = \<lparr>r_name = ''idle'', r_code = ''000001'', r_type = ''fund'', r_amount = 0,
             r_category = ''A-x'', r_remark = [], r_value = 0, r_major = ''A'',
             r_minor = Some ''x''\<rparr>"

definition row_wallet :: df_row where
  "row_wallet = \<lparr>r_name = ''wallet'', r_code = [], r_type = ''cash'', r_amount = 1000,
             r_category = LIQUIDITY, r_remark = [], r_value = 1000,
             r_major = [CHR 0xE6, CHR 0x9C, CHR 0xBA, CHR 0xE5, CHR 0x8A, CHR 0xA8],
             r_minor = Some [CHR 0xE7, CHR 0x8E, CHR 0xB0, CHR 0xE9, CHR 0x87, CHR 0x91]\<rparr>"

definition row_etf :: df_row where
  "row_etf = \<lparr>r_name = ''index'', r_code = ''sh510300'', r_type = ''etf'', r_amount = 1000,
             r_category = ''A-x'', r_remark = [], r_value = 1000, r_major = ''A'',
             r_minor = Some ''x''\<rparr>"

definition row_fund :: df_row where
  "row_fund = \<lparr>r_name = ''growth'', r_code = ''000001'', r_type = ''fund'', r_amount = 10.006,
             r_category = ''A-y'', r_remark = [], r_value = 10.006, r_major = ''A'',
             r_minor = Some ''y''\<rparr>"

definition ex_targets_quarter :: "real pydict" where
  "ex_targets_quarter = [(''A-x'', 0.25), (LIQUIDITY, 0.75)]"

definition MAJOR_FLEXIBLE :: string where
  "MAJOR_FLEXIBLE = [CHR 0xE6, CHR 0x9C, CHR 0xBA, CHR 0xE5, CHR 0x8A, CHR 0xA8]"

definition MINOR_CASH :: string where
  "MINOR_CASH = [CHR 0xE7, CHR 0x8E, CHR 0xB0, CHR 0xE9, CHR 0x87, CHR 0x91]"

definition ex_unit_price :: "string \<Rightarrow> lookup" where
  "ex_unit_price c = Frame [1]"

definition cats_quarter :: categories where
  "cats_quarter = [(''A'', \<lparr>ratio = 0.25, subcategories = [(''x'', 0.25)]\<rparr>),
                   (MAJOR_FLEXIBLE, \<lparr>ratio = 0.75, subcategories = [(MINOR_CASH, 0.75)]\<rparr>)]"

definition cats_exit :: categories where
  "cats_exit = [(''A'', \<lparr>ratio = 0.5, subcategories = [(''x'', 0.5), (''y'', 0)]\<rparr>),
                (MAJOR_FLEXIBLE, \<lparr>ratio = 0.5, subcategories = [(MINOR_CASH, 0.5)]\<rparr>)]"

definition asset_index :: asset where
  "asset_index = \<lparr>a_code = ''sh510300'', a_type = ''etf'', a_remark = [], a_amount = 1000,
                   a_category = ''A-x''\<rparr>"

definition asset_growth :: asset where
  "asset_growth = \<lparr>a_code = ''000001'', a_type = ''fund'', a_remark = [], a_amount = 10.006,
                    a_category = ''A-y''\<rparr>"

definition asset_wallet :: asset where
  "asset_wallet = \<lparr>a_code = [], a_type = ''cash'', a_remark = [], a_amount = 1000,
                    a_category = LIQUIDITY\<rparr>"










section \<open>Lemmas\<close>

subsection \<open>Editing the holdings\<close>

lemma dict_merge_single: "dict_merge d [(k, v)] = AList.update k v d"
  by (simp add: dict_merge_def)

lemma stored_assets_member:
  assumes "name \<in> fst ` set (stored_assets w)"
  shows "\<exists>user. map_of (users_collection w) (current_username w) = Some user
          \<and> assets_info user = Some (stored_assets w)"
proof -
  from assms obtain user where u: "map_of (users_collection w) (current_username w) = Some user"
    by (cases "map_of (users_collection w) (current_username w)") (auto simp: stored_assets_def)
  with assms obtain a where "assets_info user = Some a"
    by (cases "assets_info user") (auto simp: stored_assets_def)
  with u show ?thesis by (simp add: stored_assets_def)
qed

text \<open>
  Claim C9. Adding a holding under a name the portfolio already has does not fail:
  \<^const>\<open>add_asset_to_db\<close> reports success, the stored record under that name is the new
  one, every other holding is as before, and the order of the names is unchanged. The
  database is taken to answer and the user to be logged in.
\<close>

theorem add_asset_existing_name_replaces:
  assumes up: "reachable w" and login: "current_username w \<noteq> []"
    and ex: "name \<in> fst ` set (stored_assets w)"
  shows "case add_asset_to_db [(name, new)] w of (ok, msg, w') \<Rightarrow>
      ok \<and> msg = Success_asset_added
    \<and> map_of (stored_assets w') name = Some new
    \<and> (\<forall>n. n \<noteq> name \<longrightarrow> map_of (stored_assets w') n = map_of (stored_assets w) n)
    \<and> map fst (stored_assets w') = map fst (stored_assets w)"
proof -
  from ex obtain user where u: "map_of (users_collection w) (current_username w) = Some user"
    and a: "assets_info user = Some (stored_assets w)"
    using stored_assets_member by blast
  from up login u a have cfg: "get_user_config_from_db w
      = Some (stored_assets w, case categories user of None \<Rightarrow> DEFAULT_CATEGORIES | Some c \<Rightarrow> c)"
    by (simp add: get_user_config_from_db_def find_one_def)
  let ?new = "AList.update name new (stored_assets w)"
  let ?w' = "w\<lparr>users_collection :=
        AList.update (current_username w) (user\<lparr>assets_info := Some ?new\<rparr>) (users_collection w)\<rparr>"
  from up u cfg have res: "add_asset_to_db [(name, new)] w = (True, Success_asset_added, ?w')"
    by (simp add: add_asset_to_db_def update_one_def dict_merge_single)
  have st: "stored_assets ?w' = ?new"
    by (simp add: stored_assets_def update_conv')
  from ex have keys: "map fst ?new = map fst (stored_assets w)"
    by (simp add: update_keys)
  show ?thesis
    by (simp add: res st keys update_conv')
qed

text \<open>
  Claim C10. For a name that is stored, \<^const>\<open>delete_asset_from_db\<close> reports success and
  the stored holdings are the old ones without the entry of that name, the others
  untouched and in order. For a name that is not stored it reports failure and the
  collection is unchanged.
\<close>

theorem delete_asset_from_db_effect:
  "case delete_asset_from_db name w of (ok, msg, w') \<Rightarrow>
      (name \<in> fst ` set (stored_assets w) \<and> reachable w \<and> current_username w \<noteq> [] \<longrightarrow>
          ok \<and> msg = Success_asset_deleted name
        \<and> stored_assets w' = filter (\<lambda>p. fst p \<noteq> name) (stored_assets w))
    \<and> (name \<notin> fst ` set (stored_assets w) \<and> current_username w \<noteq> [] \<longrightarrow> \<not> ok \<and> w' = w)
    \<and> (name \<notin> fst ` set (stored_assets w) \<and> current_username w \<noteq> [] \<and> reachable w \<longrightarrow>
          msg = Error_asset_missing)"
proof (cases "name \<in> fst ` set (stored_assets w) \<and> reachable w \<and> current_username w \<noteq> []")
  case True
  then have ex: "name \<in> fst ` set (stored_assets w)" and up: "reachable w"
    and login: "current_username w \<noteq> []" by simp_all
  from ex obtain user where u: "map_of (users_collection w) (current_username w) = Some user"
    and a: "assets_info user = Some (stored_assets w)"
    using stored_assets_member by blast
  from up login u a have cfg: "get_user_config_from_db w
      = Some (stored_assets w, case categories user of None \<Rightarrow> DEFAULT_CATEGORIES | Some c \<Rightarrow> c)"
    by (simp add: get_user_config_from_db_def find_one_def)
  let ?new = "AList.delete name (stored_assets w)"
  let ?w' = "w\<lparr>users_collection :=
        AList.update (current_username w) (user\<lparr>assets_info := Some ?new\<rparr>) (users_collection w)\<rparr>"
  from up u cfg ex have res: "delete_asset_from_db name w = (True, Success_asset_deleted name, ?w')"
    by (simp add: delete_asset_from_db_def update_one_def)
  have flt: "?new = filter (\<lambda>p. fst p \<noteq> name) (stored_assets w)"
    by (simp add: AList.delete_eq case_prod_unfold eq_commute)
  have st0: "stored_assets ?w' = ?new"
    by (simp add: stored_assets_def update_conv')
  have st: "stored_assets ?w' = filter (\<lambda>p. fst p \<noteq> name) (stored_assets w)"
    by (rule trans [OF st0 flt])
  from True show ?thesis
    by (simp add: res st)
next
  case False
  then show ?thesis
    by (auto simp: delete_asset_from_db_def get_user_config_from_db_def find_one_def
          stored_assets_def update_one_def split: option.splits)
qed


lemma stored_assets_w1: "stored_assets w1 = [(''bond'', ex_bond), (''gold'', ex_gold)]"
  by (simp add: stored_assets_def w1_def)

theorem add_asset_existing_name_witness:
  "fst (add_asset_to_db [(''bond'', ex_bond_new)] w1)
   \<and> map_of (stored_assets (snd (snd (add_asset_to_db [(''bond'', ex_bond_new)] w1)))) ''bond''
       = Some ex_bond_new
   \<and> map_of (stored_assets (snd (snd (add_asset_to_db [(''bond'', ex_bond_new)] w1)))) ''gold''
       = Some ex_gold
   \<and> map fst (stored_assets (snd (snd (add_asset_to_db [(''bond'', ex_bond_new)] w1))))
       = [''bond'', ''gold'']"
proof -
  have up: "reachable w1" and login: "current_username w1 \<noteq> []"
    by (simp_all add: w1_def)
  have ex: "''bond'' \<in> fst ` set (stored_assets w1)"
    by (simp add: stored_assets_w1)
  show ?thesis
    using add_asset_existing_name_replaces [OF up login ex, of ex_bond_new]
    by (simp add: case_prod_unfold stored_assets_w1)
qed

theorem delete_asset_from_db_witness:
  "delete_asset_from_db ''none'' w1 = (False, Error_asset_missing, w1)
   \<and> fst (delete_asset_from_db ''bond'' w1)
   \<and> stored_assets (snd (snd (delete_asset_from_db ''bond'' w1))) = [(''gold'', ex_gold)]"
proof -
  have up: "reachable w1" and login: "current_username w1 \<noteq> []"
    by (simp_all add: w1_def)
  have ex: "''bond'' \<in> fst ` set (stored_assets w1)" and nex: "''none'' \<notin> fst ` set (stored_assets w1)"
    by (simp_all add: stored_assets_w1)
  have 1: "delete_asset_from_db ''none'' w1 = (False, Error_asset_missing, w1)"
    using delete_asset_from_db_effect [of "''none''" w1] up login nex
    by (cases "delete_asset_from_db ''none'' w1") simp
  have 2: "fst (delete_asset_from_db ''bond'' w1)
     \<and> stored_assets (snd (snd (delete_asset_from_db ''bond'' w1))) = [(''gold'', ex_gold)]"
    using delete_asset_from_db_effect [of "''bond''" w1] up login ex
    by (simp add: case_prod_unfold stored_assets_w1)
  from 1 2 show ?thesis by simp
qed

subsection \<open>Floating-point evaluation\<close>

lemma expo_numeral:
  "expo (numeral k) x =
     (if 2 \<le> x then expo (pred_numeral k) (x / 2) + 1
      else if x < 1 then expo (pred_numeral k) (x * 2) - 1
      else 0)"
  by (simp add: numeral_eq_Suc)

lemmas fl_eval = fl_def pow2_def expo_numeral round_half_even_def

lemma ieee_fields:
  "lit ieee_arith = fl" "f_add ieee_arith = (\<lambda>x y. fl (x + y))"
  "f_sub ieee_arith = (\<lambda>x y. fl (x - y))" "f_mul ieee_arith = (\<lambda>x y. fl (x * y))"
  "f_div ieee_arith = (\<lambda>x y. fl (x / y))" "f_abs ieee_arith = (\<lambda>x. \<bar>x\<bar>)"
  "f_le ieee_arith = (\<lambda>x y. x \<le> y)" "f_lt ieee_arith = (\<lambda>x y. x < y)"
  "f_eq ieee_arith = (\<lambda>x y. x = y)"
  "builtin_sum ieee_arith = foldl (\<lambda>s x. fl (s + x)) 0"
  "series_sum ieee_arith = foldl (\<lambda>s x. fl (s + x)) 0"
  "group_sum ieee_arith = kahan 0 0"
  "percent ieee_arith = (\<lambda>n x. py_round (fl (x * 100)) n)"
  by (simp_all add: ieee_arith_def)


lemma exact_fields:
  "lit exact_arith = (\<lambda>x. x)" "f_add exact_arith = (\<lambda>x y. x + y)"
  "f_sub exact_arith = (\<lambda>x y. x - y)" "f_mul exact_arith = (\<lambda>x y. x * y)"
  "f_div exact_arith = (\<lambda>x y. x / y)" "f_abs exact_arith = (\<lambda>x. \<bar>x\<bar>)"
  "f_le exact_arith = (\<lambda>x y. x \<le> y)" "f_lt exact_arith = (\<lambda>x y. x < y)"
  "f_eq exact_arith = (\<lambda>x y. x = y)" "builtin_sum exact_arith = sum_list"
  "series_sum exact_arith = sum_list" "group_sum exact_arith = sum_list"
  "percent exact_arith = (\<lambda>n x. py_round (x * 100) n)"
  by (simp_all add: exact_arith_def)

text \<open>
  The doubles nearest to the decimal literals of the page, and what the format
  specifications print.
\<close>

lemma fl_literals:
  "fl 0.99 = 4458563631096791 / 4503599627370496"
  "fl 1.01 = 4548635623644201 / 4503599627370496"
  "fl 0.2 = 3602879701896397 / 18014398509481984"
  "fl 1 = 1"
  by (simp_all add: fl_eval)


subsection \<open>Saving the category hierarchy\<close>

lemma total_major_sum: "total_major exact_arith cats = sum_list (map (ratio \<circ> snd) cats)"
  by (simp add: total_major_def exact_fields comp_def case_prod_unfold)

lemma total_minor_sum: "total_minor exact_arith d = sum_list (map snd (subcategories d))"
  by (simp add: total_minor_def exact_fields)

text \<open>
  Without rounding the two checks of the code are Invariant A and Invariant B.
\<close>

lemma major_check_exact: "major_check exact_arith cats \<longleftrightarrow> invariant_A cats"
  using total_major_sum [of cats]
  by (simp add: major_check_def invariant_A_def) (simp add: exact_arith_def)

lemma minor_check_exact:
  "list_all (\<lambda>m. minor_check exact_arith (snd m)) cats \<longleftrightarrow> invariant_B cats"
proof -
  have "minor_check exact_arith d
      \<longleftrightarrow> 0.99 * ratio d \<le> sum_list (map snd (subcategories d))
          \<and> sum_list (map snd (subcategories d)) \<le> 1.01 * ratio d" for d
    using total_minor_sum [of d] by (simp add: minor_check_def) (simp add: exact_arith_def)
  then show ?thesis
    by (auto simp: invariant_B_def list_all_iff)
qed













subsection \<open>Dictionaries\<close>

lemma update_new_key: "k \<notin> fst ` set al \<Longrightarrow> AList.update k v al = al @ [(k, v)]"
  by (induction al) auto

lemma dict_merge_Cons: "dict_merge d ((k, v) # kvs) = dict_merge (AList.update k v d) kvs"
  by (simp add: dict_merge_def)

lemma dict_merge_Nil: "dict_merge d [] = d"
  by (simp add: dict_merge_def)

lemma dict_merge_append: "dict_merge d (xs @ ys) = dict_merge (dict_merge d xs) ys"
  by (simp add: dict_merge_def)

lemma dict_merge_distinct_append:
  "distinct (map fst d @ map fst kvs) \<Longrightarrow> dict_merge d kvs = d @ kvs"
proof (induction kvs arbitrary: d)
  case Nil
  then show ?case by (simp add: dict_merge_Nil)
next
  case (Cons p kvs)
  obtain k v where p: "p = (k, v)" by (cases p)
  from Cons.prems p have new: "k \<notin> fst ` set d" by auto
  then have upd: "AList.update k v d = d @ [(k, v)]" by (rule update_new_key)
  from Cons.prems p have "distinct (map fst (d @ [(k, v)]) @ map fst kvs)" by auto
  then have "dict_merge (d @ [(k, v)]) kvs = (d @ [(k, v)]) @ kvs" by (rule Cons.IH)
  with p upd show ?case by (simp add: dict_merge_Cons)
qed

lemma dict_merge_distinct: "distinct (map fst kvs) \<Longrightarrow> dict_merge [] kvs = kvs"
  using dict_merge_distinct_append [of "[]" kvs] by simp

lemma dict_merge_keys:
  "map fst (dict_merge d kvs)
     = map fst d @ filter (\<lambda>k. k \<notin> fst ` set d) (first_occurrence (map fst kvs))"
proof (induction kvs arbitrary: d)
  case Nil
  then show ?case by (simp add: dict_merge_Nil)
next
  case (Cons p kvs)
  obtain k v where p: "p = (k, v)" by (cases p)
  show ?case
  proof (cases "k \<in> fst ` set d")
    case True
    then have keys: "map fst (AList.update k v d) = map fst d"
      by (simp add: update_keys)
    then have same: "fst ` set (AList.update k v d) = fst ` set d"
      by (metis set_map)
    have "filter (\<lambda>x. x \<notin> fst ` set d) (filter (\<lambda>y. y \<noteq> k) (first_occurrence (map fst kvs)))
        = filter (\<lambda>x. x \<notin> fst ` set d) (first_occurrence (map fst kvs))"
      using True by (auto intro: filter_cong)
    with True p keys same Cons.IH [of "AList.update k v d"] show ?thesis
      by (simp add: dict_merge_Cons)
  next
    case False
    then have keys: "map fst (AList.update k v d) = map fst d @ [k]"
      by (simp add: update_keys)
    then have more: "fst ` set (AList.update k v d) = insert k (fst ` set d)"
      by (metis set_map set_append list.set(1,2) Un_insert_right sup_bot.right_neutral)
    have "filter (\<lambda>x. x \<notin> insert k (fst ` set d)) (first_occurrence (map fst kvs))
        = filter (\<lambda>x. x \<notin> fst ` set d) (filter (\<lambda>y. y \<noteq> k) (first_occurrence (map fst kvs)))"
      by (auto intro: filter_cong)
    with False p keys more Cons.IH [of "AList.update k v d"] show ?thesis
      by (simp add: dict_merge_Cons)
  qed
qed

lemma first_occurrence_distinct: "distinct xs \<Longrightarrow> first_occurrence xs = xs"
proof (induction xs)
  case Nil
  then show ?case by simp
next
  case (Cons x xs)
  then have "filter (\<lambda>y. y \<noteq> x) xs = xs" by (auto intro: filter_True)
  with Cons show ?case by simp
qed

lemma set_first_occurrence: "set (first_occurrence xs) = set xs"
  by (induction xs) auto

lemma distinct_first_occurrence: "distinct (first_occurrence xs)"
  by (induction xs) (auto simp: set_first_occurrence)

lemma flatten_minor_merge:
  "flatten_minor major_name subs acc
     = dict_merge acc (map (\<lambda>(minor_name, minor_ratio). (major_name @ ''-'' @ minor_name, minor_ratio)) subs)"
  by (induction major_name subs acc rule: flatten_minor.induct)
     (simp_all add: dict_merge_Nil dict_merge_Cons)

lemma flatten_major_merge: "flatten_major cats acc = dict_merge acc (declared_items cats)"
  by (induction cats acc rule: flatten_major.induct)
     (simp_all add: declared_items_def dict_merge_Nil dict_merge_append flatten_minor_merge)

lemma declared_items_keys: "map fst (declared_items cats) = declared_keys cats"
  by (induction cats) (auto simp: declared_items_def declared_keys_def comp_def case_prod_unfold)

lemma target_ratio_sub_keys:
  "map fst (snd (flatten_categories cats)) = first_occurrence (declared_keys cats)"
  by (simp add: flatten_categories_def flatten_major_merge dict_merge_keys declared_items_keys)

lemma target_ratio_keys:
  "map fst (fst (flatten_categories cats)) = first_occurrence (map fst cats)"
  by (simp add: flatten_categories_def dict_merge_keys comp_def case_prod_unfold)

lemma py_round_zero: "py_round 0 n = 0"
  by (simp add: py_round_def round_half_even_def)

lemma table_rows_keys: "map fst (table_rows column targets dd rd df) = map fst targets"
  by (simp add: table_rows_def comp_def)

lemma series_get_absent: "k \<notin> column ` set df \<Longrightarrow> series_get (groupby_sum column df) k 0 = 0"
  by (simp add: series_get_def groupby_sum_def)

lemma table_rows_absent:
  "(k, row) \<in> set (table_rows column targets dd rd df) \<Longrightarrow> k \<notin> column ` set df
     \<Longrightarrow> current_amount row = 0"
  by (auto simp: table_rows_def series_get_absent py_round_zero)


lemma set_update_subset: "set (AList.update k v d) \<subseteq> insert (k, v) (set d)"
  by (induction d) auto

lemma set_dict_merge_subset: "set (dict_merge d kvs) \<subseteq> set d \<union> set kvs"
proof (induction kvs arbitrary: d)
  case Nil
  then show ?case by (simp add: dict_merge_Nil)
next
  case (Cons p kvs)
  obtain k v where p: "p = (k, v)" by (cases p)
  have "set (dict_merge (AList.update k v d) kvs) \<subseteq> set (AList.update k v d) \<union> set kvs"
    by (rule Cons.IH)
  with set_update_subset [of k v d] p show ?case
    by (auto simp: dict_merge_Cons)
qed

lemma map_of_map_values:
  "map_of (map (\<lambda>(k, v). (k, f k v)) xs) k = map_option (f k) (map_of xs k)"
  by (induction xs) auto

lemma dict_of_targets:
  assumes "distinct (map fst targets)"
  shows "dict_merge [] (map (\<lambda>(k, tar). (k, f k tar)) targets) = map (\<lambda>(k, tar). (k, f k tar)) targets"
proof -
  have keys: "map fst (map (\<lambda>(k, tar). (k, f k tar)) targets) = map fst targets"
    by (simp add: comp_def case_prod_unfold)
  show ?thesis
    by (rule dict_merge_distinct) (simp only: keys assms)
qed

subsection \<open>Deviation analysis\<close>

lemma diff_ratio_of_finite: "\<exists>x. diff_ratio_of tot summary k tar = Finite x"
  by (simp add: diff_ratio_of_def np_div_def)

lemma diff_ratio_dict_finite:
  assumes "(k, v) \<in> set (dict_merge [] (map (\<lambda>(k, tar). (k, diff_ratio_of tot summary k tar)) targets))"
  shows "\<exists>x. v = Finite x"
proof -
  from assms set_dict_merge_subset
  have "(k, v) \<in> set (map (\<lambda>(k, tar). (k, diff_ratio_of tot summary k tar)) targets)"
    by fastforce
  then obtain tar where "v = diff_ratio_of tot summary k tar" by auto
  with diff_ratio_of_finite show ?thesis by simp
qed

text \<open>
  Claim C4. For a key of the target dict, major or subcategory, whose target value
  \<open>total_value * ratio\<close> is zero (a zero ratio or a zero portfolio total), the deviation
  percentage the analyzer stores is the number 0. No stored deviation percentage is
  \<^verbatim>\<open>nan\<close> or an infinity: the division is made only with a nonzero target value.
\<close>

theorem deviation_pct_zero_target:
  assumes dict: "distinct (map fst targets)" and key: "(k, tar) \<in> set targets"
    and zero: "total_value df * tar = 0"
  shows "map_of (sub_diff_ratio targets df) k = Some (Finite 0)
       \<and> map_of (cls_diff_ratio targets df) k = Some (Finite 0)
       \<and> (\<forall>k' v. (k', v) \<in> set (sub_diff_ratio targets df) \<longrightarrow> v \<noteq> Nan \<and> v \<noteq> Inf)
       \<and> (\<forall>k' v. (k', v) \<in> set (cls_diff_ratio targets df) \<longrightarrow> v \<noteq> Nan \<and> v \<noteq> Inf)"
proof -
  from dict key have look: "map_of targets k = Some tar" by simp
  from zero have z: "diff_ratio_of (total_value df) summary k tar = Finite 0" for summary
    by (simp add: diff_ratio_of_def)
  have 1: "map_of (sub_diff_ratio targets df) k = Some (Finite 0)"
    unfolding sub_diff_ratio_def dict_of_targets [OF dict]
    by (simp add: map_of_map_values look z)
  have 2: "map_of (cls_diff_ratio targets df) k = Some (Finite 0)"
    unfolding cls_diff_ratio_def dict_of_targets [OF dict]
    by (simp add: map_of_map_values look z)
  have 3: "v \<noteq> Nan \<and> v \<noteq> Inf" if "(k', v) \<in> set (sub_diff_ratio targets df)" for k' v
    using diff_ratio_dict_finite that unfolding sub_diff_ratio_def by fastforce
  have 4: "v \<noteq> Nan \<and> v \<noteq> Inf" if "(k', v) \<in> set (cls_diff_ratio targets df)" for k' v
    using diff_ratio_dict_finite that unfolding cls_diff_ratio_def by fastforce
  from 1 2 3 4 show ?thesis by blast
qed

theorem deviation_pct_zero_target_witness:
  "map_of (sub_diff_ratio [(''A-x'', 0.5), (''A-y'', 0), (''B-z'', 0.5)] [ex_row]) ''A-y'' = Some (Finite 0)
   \<and> map_of (cls_diff_ratio [(''A-x'', 0.5), (''A-y'', 0), (''B-z'', 0.5)] [ex_row]) ''A-y'' = Some (Finite 0)"
proof -
  have dict: "distinct (map fst [(''A-x'', 0.5::real), (''A-y'', 0), (''B-z'', 0.5)])" by simp
  have key: "(''A-y'', 0) \<in> set [(''A-x'', 0.5::real), (''A-y'', 0), (''B-z'', 0.5)]" by simp
  have zero: "total_value [ex_row] * 0 = 0" by simp
  from deviation_pct_zero_target [OF dict key zero] show ?thesis by simp
qed

text \<open>
  Claim C8. The subcategory table has one row per key of the flattened hierarchy, the
  major table one row per major, in the order the hierarchy declares them (for a key
  declared twice, the place of its first declaration). A key no holding maps to still
  has its row, with actual value 0.
\<close>

theorem deviation_rows_follow_declaration:
  "map fst (data_sub (snd (flatten_categories cats)) df) = first_occurrence (declared_keys cats)
 \<and> map fst (cls_data (fst (flatten_categories cats)) df) = first_occurrence (map fst cats)
 \<and> (distinct (declared_keys cats) \<longrightarrow>
       map fst (data_sub (snd (flatten_categories cats)) df) = declared_keys cats)
 \<and> (distinct (map fst cats) \<longrightarrow>
       map fst (cls_data (fst (flatten_categories cats)) df) = map fst cats)
 \<and> fst ` set (data_sub (snd (flatten_categories cats)) df) = set (declared_keys cats)
 \<and> fst ` set (cls_data (fst (flatten_categories cats)) df) = fst ` set cats
 \<and> (\<forall>k row. (k, row) \<in> set (data_sub (snd (flatten_categories cats)) df)
        \<and> k \<notin> r_category ` set df \<longrightarrow>
          series_get (groupby_sum r_category df) k 0 = 0 \<and> current_amount row = 0)
 \<and> (\<forall>k row. (k, row) \<in> set (cls_data (fst (flatten_categories cats)) df)
        \<and> k \<notin> r_major ` set df \<longrightarrow>
          series_get (groupby_sum r_major df) k 0 = 0 \<and> current_amount row = 0)"
proof -
  have sub: "map fst (data_sub (snd (flatten_categories cats)) df) = first_occurrence (declared_keys cats)"
    by (simp add: data_sub_def table_rows_keys target_ratio_sub_keys)
  have cls: "map fst (cls_data (fst (flatten_categories cats)) df) = first_occurrence (map fst cats)"
    by (simp add: cls_data_def table_rows_keys target_ratio_keys)
  from sub have sub_set: "fst ` set (data_sub (snd (flatten_categories cats)) df) = set (declared_keys cats)"
    by (metis set_map set_first_occurrence)
  from cls have cls_set: "fst ` set (cls_data (fst (flatten_categories cats)) df) = fst ` set cats"
    by (metis set_map set_first_occurrence)
  have sub_zero: "series_get (groupby_sum r_category df) k 0 = 0 \<and> current_amount row = 0"
    if "(k, row) \<in> set (data_sub (snd (flatten_categories cats)) df)" "k \<notin> r_category ` set df"
    for k row
    using that table_rows_absent [of k row r_category] by (simp add: data_sub_def series_get_absent)
  have cls_zero: "series_get (groupby_sum r_major df) k 0 = 0 \<and> current_amount row = 0"
    if "(k, row) \<in> set (cls_data (fst (flatten_categories cats)) df)" "k \<notin> r_major ` set df"
    for k row
    using that table_rows_absent [of k row r_major] by (simp add: cls_data_def series_get_absent)
  from sub_zero have sub_zero': "\<forall>k row. (k, row) \<in> set (data_sub (snd (flatten_categories cats)) df)
        \<and> k \<notin> r_category ` set df \<longrightarrow>
          series_get (groupby_sum r_category df) k 0 = 0 \<and> current_amount row = 0"
    by blast
  from cls_zero have cls_zero': "\<forall>k row. (k, row) \<in> set (cls_data (fst (flatten_categories cats)) df)
        \<and> k \<notin> r_major ` set df \<longrightarrow>
          series_get (groupby_sum r_major df) k 0 = 0 \<and> current_amount row = 0"
    by blast
  from sub have sub_d: "distinct (declared_keys cats) \<longrightarrow>
       map fst (data_sub (snd (flatten_categories cats)) df) = declared_keys cats"
    by (simp add: first_occurrence_distinct)
  from cls have cls_d: "distinct (map fst cats) \<longrightarrow>
       map fst (cls_data (fst (flatten_categories cats)) df) = map fst cats"
    by (simp add: first_occurrence_distinct)
  from sub cls sub_d cls_d sub_set cls_set sub_zero' cls_zero' show ?thesis
    by (intro conjI)
qed

lemma declared_keys_cats_ok: "declared_keys cats_ok = [''A-x'', ''A-y'', ''B-z'']"
  by (simp add: declared_keys_def cats_ok_def)

theorem deviation_rows_witness:
  "map fst (data_sub (snd (flatten_categories cats_ok)) [ex_row]) = [''A-x'', ''A-y'', ''B-z'']
   \<and> map fst (cls_data (fst (flatten_categories cats_ok)) [ex_row]) = [''A'', ''B'']
   \<and> (\<exists>row. (''B-z'', row) \<in> set (data_sub (snd (flatten_categories cats_ok)) [ex_row])
         \<and> current_amount row = 0)"
proof -
  have d1: "distinct (declared_keys cats_ok)" by (simp add: declared_keys_cats_ok)
  have d2: "distinct (map fst cats_ok)" by (simp add: cats_ok_def)
  have absent: "''B-z'' \<notin> r_category ` set [ex_row]" by (simp add: ex_row_def)
  have majors: "map fst cats_ok = [''A'', ''B'']" by (simp add: cats_ok_def)
  note rows = deviation_rows_follow_declaration [of cats_ok "[ex_row]"]
  from rows d1 have a: "map fst (data_sub (snd (flatten_categories cats_ok)) [ex_row])
      = declared_keys cats_ok" by blast
  from rows d2 have b: "map fst (cls_data (fst (flatten_categories cats_ok)) [ex_row])
      = map fst cats_ok" by blast
  from rows absent have c: "\<forall>row. (''B-z'', row) \<in> set (data_sub (snd (flatten_categories cats_ok)) [ex_row])
         \<longrightarrow> current_amount row = 0" by blast
  from a have "''B-z'' \<in> set (map fst (data_sub (snd (flatten_categories cats_ok)) [ex_row]))"
    by (simp only: declared_keys_cats_ok) simp
  then obtain row where row: "(''B-z'', row) \<in> set (data_sub (snd (flatten_categories cats_ok)) [ex_row])"
    by auto
  with c have d: "\<exists>row. (''B-z'', row) \<in> set (data_sub (snd (flatten_categories cats_ok)) [ex_row])
         \<and> current_amount row = 0"
    by blast
  from a b d show ?thesis
    by (simp only: declared_keys_cats_ok majors)
qed
subsection \<open>Snapshot valuation\<close>

lemma load_prices_warnings:
  "snd (load_prices gf gp assets (A0, W0)) = W0 @ concat (map (warning_of gf gp) assets)"
proof (induction assets arbitrary: A0 W0)
  case Nil
  then show ?case by simp
next
  case (Cons p assets)
  obtain name info where p: "p = (name, info)" by (cases p)
  show ?case
    unfolding p
    by (cases "gf (a_code info)"; cases "gp (a_code info)")
       (simp_all add: Cons.IH warning_of_def lookup_for_def)
qed

lemma load_prices_frames:
  "distinct (map fst assets) \<Longrightarrow>
   map_of (fst (load_prices gf gp assets (A0, W0))) n =
     (case map_of assets n of
        None \<Rightarrow> map_of A0 n
      | Some info \<Rightarrow> (case lookup_for gf gp info of Some (Frame d) \<Rightarrow> Some d | _ \<Rightarrow> map_of A0 n))"
proof (induction assets arbitrary: A0 W0 n)
  case Nil
  then show ?case by simp
next
  case (Cons p assets)
  obtain name info where p: "p = (name, info)" by (cases p)
  from Cons.prems p have d: "distinct (map fst assets)" and fresh: "map_of assets name = None"
    by (auto simp: map_of_eq_None_iff)
  note IH = Cons.IH [OF d]
  show ?case
    unfolding p
    by (cases "gf (a_code info)"; cases "gp (a_code info)")
       (auto simp: IH lookup_for_def update_conv' fresh split: option.splits lookup.splits)
qed

lemma current_values_lookup:
  assumes "distinct (map fst assets)" and "(name, info) \<in> set assets"
  shows "map_of (current_values A assets) name = Some (current_value A name info)"
proof -
  from assms have "map_of assets name = Some info" by simp
  then show ?thesis
    unfolding current_values_def dict_of_targets [OF assms(1)]
    by (simp add: map_of_map_values)
qed

lemma current_values_keys:
  assumes "distinct (map fst assets)"
  shows "map fst (current_values A assets) = map fst assets"
proof -
  have "current_values A assets = map (\<lambda>(name, info). (name, current_value A name info)) assets"
    unfolding current_values_def by (rule dict_of_targets [OF assms])
  then show ?thesis by (simp add: comp_def case_prod_unfold)
qed

text \<open>
  Claim C5, as the code has it. Every holding of \<^verbatim>\<open>assets_info\<close> gets a value, whatever
  the price sources do. A cash holding is valued at its quantity and gets no warning,
  for every behaviour of the price sources. A fund or ETF whose lookup raises is valued
  at 0 and a warning with its name and the exception's text is shown. A fund or ETF
  whose lookup returns an empty frame is valued at 0 too, but no warning is shown for
  it. A lookup that returns data gives quantity times the last closing price.
\<close>

theorem valuation_degrades_per_holding:
  assumes dict: "distinct (map fst assets)" and held: "(name, info) \<in> set assets"
  shows "map fst (current_values (fst (load_prices gf gp assets ([], []))) assets) = map fst assets
   \<and> (a_type info = ''cash'' \<longrightarrow>
         map_of (current_values (fst (load_prices gf gp assets ([], []))) assets) name
           = Some (a_amount info)
         \<and> name \<notin> fst ` set (snd (load_prices gf gp assets ([], []))))
   \<and> (\<forall>e. lookup_for gf gp info = Some (Raises e) \<longrightarrow>
         map_of (current_values (fst (load_prices gf gp assets ([], []))) assets) name = Some 0
         \<and> (name, e) \<in> set (snd (load_prices gf gp assets ([], []))))
   \<and> (lookup_for gf gp info = Some (Frame []) \<longrightarrow>
         map_of (current_values (fst (load_prices gf gp assets ([], []))) assets) name = Some 0
         \<and> name \<notin> fst ` set (snd (load_prices gf gp assets ([], []))))
   \<and> (\<forall>d. d \<noteq> [] \<and> lookup_for gf gp info = Some (Frame d) \<longrightarrow>
         map_of (current_values (fst (load_prices gf gp assets ([], []))) assets) name
           = Some (a_amount info * last d))"
proof -
  let ?A = "fst (load_prices gf gp assets ([], []))"
  let ?W = "snd (load_prices gf gp assets ([], []))"
  from dict held have look: "map_of assets name = Some info" by simp
  have val: "map_of (current_values ?A assets) name = Some (current_value ?A name info)"
    using dict held by (rule current_values_lookup)
  have frames: "map_of ?A name = (case lookup_for gf gp info of Some (Frame d) \<Rightarrow> Some d | _ \<Rightarrow> None)"
    by (simp add: load_prices_frames [OF dict] look split: option.splits lookup.splits)
  have W: "?W = concat (map (warning_of gf gp) assets)"
    by (simp add: load_prices_warnings)
  have warned: "(name, e) \<in> set ?W" if "lookup_for gf gp info = Some (Raises e)" for e
    unfolding W using held that by (auto simp: warning_of_def intro!: bexI [of _ "(name, info)"])
  have silent: "name \<notin> fst ` set ?W" if "\<forall>e. lookup_for gf gp info \<noteq> Some (Raises e)"
  proof
    assume "name \<in> fst ` set ?W"
    then obtain e where "(name, e) \<in> set ?W" by auto
    then obtain p where p: "p \<in> set assets" "(name, e) \<in> set (warning_of gf gp p)"
      unfolding W by auto
    obtain n i where ni: "p = (n, i)" by (cases p)
    with p have "n = name" and r: "lookup_for gf gp i = Some (Raises e)"
      by (auto simp: warning_of_def split: option.splits lookup.splits)
    with p ni dict look have "i = info" by simp
    with r that show False by simp
  qed
  have cash: "lookup_for gf gp info = None" if "a_type info = ''cash''"
    using that by (simp add: lookup_for_def)
  have 1: "map fst (current_values ?A assets) = map fst assets"
    using dict by (rule current_values_keys)
  have 2: "map_of (current_values ?A assets) name = Some (a_amount info) \<and> name \<notin> fst ` set ?W"
    if "a_type info = ''cash''"
    using that val silent cash by (simp add: current_value_def)
  have notcash: "a_type info \<noteq> ''cash''" if "lookup_for gf gp info = Some l" for l
    using that by (auto simp: lookup_for_def split: if_splits)
  have 3: "map_of (current_values ?A assets) name = Some 0 \<and> (name, e) \<in> set ?W"
    if "lookup_for gf gp info = Some (Raises e)" for e
    using that val frames warned notcash by (simp add: current_value_def)
  have 4: "map_of (current_values ?A assets) name = Some 0 \<and> name \<notin> fst ` set ?W"
    if "lookup_for gf gp info = Some (Frame [])"
    using that val frames silent notcash by (simp add: current_value_def)
  have 5: "map_of (current_values ?A assets) name = Some (a_amount info * last d)"
    if "d \<noteq> []" "lookup_for gf gp info = Some (Frame d)" for d
    using that val frames notcash by (simp add: current_value_def)
  from 1 2 3 4 5 show ?thesis by blast
qed


theorem valuation_witness:
  "map fst (current_values (fst (load_prices ex_get_fund_price ex_get_price ex_assets ([], []))) ex_assets)
     = [''wallet'', ''bond'', ''gold'']
   \<and> map_of (current_values (fst (load_prices ex_get_fund_price ex_get_price ex_assets ([], []))) ex_assets)
         ''wallet'' = Some 5000
   \<and> map_of (current_values (fst (load_prices ex_get_fund_price ex_get_price ex_assets ([], []))) ex_assets)
         ''bond'' = Some 0
   \<and> (''bond'', ''no route'') \<in> set (snd (load_prices ex_get_fund_price ex_get_price ex_assets ([], [])))
   \<and> map_of (current_values (fst (load_prices ex_get_fund_price ex_get_price ex_assets ([], []))) ex_assets)
         ''gold'' = Some 750"
proof -
  have dict: "distinct (map fst ex_assets)" by (simp add: ex_assets_def)
  have w: "(''wallet'', ex_cash) \<in> set ex_assets" and b: "(''bond'', ex_bond) \<in> set ex_assets"
    and g: "(''gold'', ex_gold) \<in> set ex_assets"
    by (simp_all add: ex_assets_def)
  have cash: "a_type ex_cash = ''cash''" by (simp add: ex_cash_def)
  have raised: "lookup_for ex_get_fund_price ex_get_price ex_bond = Some (Raises ''no route'')"
    by (simp add: lookup_for_def ex_bond_def ex_get_price_def)
  have priced: "lookup_for ex_get_fund_price ex_get_price ex_gold = Some (Frame [2.4, 2.5])"
    by (simp add: lookup_for_def ex_gold_def ex_get_price_def)
  from valuation_degrades_per_holding [OF dict w, of ex_get_fund_price ex_get_price] cash
  have 1: "map fst (current_values (fst (load_prices ex_get_fund_price ex_get_price ex_assets ([], []))) ex_assets)
     = map fst ex_assets
   \<and> map_of (current_values (fst (load_prices ex_get_fund_price ex_get_price ex_assets ([], []))) ex_assets)
         ''wallet'' = Some (a_amount ex_cash)"
    by blast
  from valuation_degrades_per_holding [OF dict b, of ex_get_fund_price ex_get_price] raised
  have 2: "map_of (current_values (fst (load_prices ex_get_fund_price ex_get_price ex_assets ([], []))) ex_assets)
         ''bond'' = Some 0
   \<and> (''bond'', ''no route'') \<in> set (snd (load_prices ex_get_fund_price ex_get_price ex_assets ([], [])))"
    by blast
  from valuation_degrades_per_holding [OF dict g, of ex_get_fund_price ex_get_price] priced
  have 3: "map_of (current_values (fst (load_prices ex_get_fund_price ex_get_price ex_assets ([], []))) ex_assets)
         ''gold'' = Some (a_amount ex_gold * last [2.4, 2.5])"
    by blast
  from 1 2 3 show ?thesis
    by (simp add: ex_assets_def ex_cash_def ex_gold_def)
qed

text \<open>
  Against claim C5 as stated: an ETF whose lookup returns an empty frame is valued at 0,
  and the list of warnings stays empty.
\<close>

theorem empty_frame_no_warning:
  "lookup_for ex_get_fund_price (\<lambda>c. Frame []) ex_gold = Some (Frame [])
   \<and> load_prices ex_get_fund_price (\<lambda>c. Frame []) [(''gold'', ex_gold)] ([], [])
       = ([(''gold'', [])], [])
   \<and> current_values [(''gold'', [])] [(''gold'', ex_gold)] = [(''gold'', 0)]"
  by (simp add: lookup_for_def ex_gold_def current_values_def current_value_def dict_merge_def)


subsection \<open>The threshold of the advisor\<close>

text \<open>
  With exact arithmetic the functions that take the arithmetic as a parameter are the
  ones of the sections on the advice: the advice is the same.
\<close>

lemma exact_total_value: "fl_total_value exact_arith df = total_value df"
  by (simp add: fl_total_value_def total_value_def py_sum_def exact_fields)

lemma exact_current_ratio: "fl_current_ratio exact_arith df = current_ratio_of df"
  by (intro ext)
     (simp add: fl_current_ratio_def current_ratio_of_def fl_category_value_def category_value_def
        groupby_sum_def exact_total_value py_sum_def exact_fields)

lemma exact_adjust_of: "fl_adjust_of exact_arith df = adjust_of df"
  by (intro ext)
     (simp add: fl_adjust_of_def adjust_of_def fl_gap_def exact_current_ratio exact_total_value
        exact_fields)

lemma exact_significant_adj: "fl_significant_adj exact_arith = significant_adj"
  by (intro ext) (simp add: fl_significant_adj_def significant_adj_def exact_fields)

lemma exact_major_deviation: "fl_major_deviation exact_arith = major_deviation"
  by (intro ext) (simp add: fl_major_deviation_def major_deviation_def exact_fields)

lemma exact_detail_loop:
  "detail_loop (\<lambda>category minor adj. b_body (category_block df category minor adj)) xs
     = detail_blocks df xs"
  by (induction df xs rule: detail_blocks.induct)
     (auto simp: category_block_def split: list.splits)

lemma exact_rebalance_advice:
  "fl_rebalance_advice exact_arith (\<lambda>category minor adj. b_body (category_block df category minor adj))
      target_ratio_sub df
     = rebalance_advice target_ratio_sub df"
  by (simp add: fl_rebalance_advice_def rebalance_advice_def fl_adjustment_def adjustment_def
        exact_adjust_of exact_significant_adj exact_major_deviation exact_detail_loop
        exact_total_value exact_fields)

text \<open>
  Without rounding, and for a positive target ratio, the relative gap the advisor compares
  with 0.2 is the magnitude of the analyzer's deviation percentage, over 100. In floating
  point the two are computed along different paths and need not agree.
\<close>

lemma exact_gap_is_deviation:
  assumes T: "fl_total_value exact_arith df \<noteq> 0" and pos: "0 < tar"
  shows "fl_gap exact_arith df k tar
     = \<bar>fl_diff_ratio_of exact_arith (fl_total_value exact_arith df)
          (series_get (fl_category_value exact_arith df) k 0) tar\<bar> / 100"
proof -
  let ?t = "fl_total_value exact_arith df"
  let ?a = "series_get (fl_category_value exact_arith df) k 0"
  have cur: "series_get (fl_current_ratio exact_arith df) k 0 = ?a / ?t"
    by (simp add: series_get_def fl_current_ratio_def exact_fields split: option.splits)
  have gap: "fl_gap exact_arith df k tar = \<bar>tar - ?a / ?t\<bar> / tar"
    using pos by (simp add: fl_gap_def exact_fields cur)
  have dr: "fl_diff_ratio_of exact_arith ?t ?a tar = (?a - ?t * tar) / (?t * tar) * 100"
    using T pos by (simp add: fl_diff_ratio_of_def exact_fields)
  have scale: "\<bar>x * 100\<bar> / 100 = \<bar>x\<bar>" for x :: real
    by (simp add: abs_mult)
  from T pos have "(?a - ?t * tar) / (?t * tar) = - ((tar - ?a / ?t) / tar)"
    by (simp add: field_simps)
  then have eq: "\<bar>(?a - ?t * tar) / (?t * tar)\<bar> = \<bar>tar - ?a / ?t\<bar> / tar"
    using pos by simp
  show ?thesis
    unfolding gap dr scale by (rule eq [symmetric])
qed







lemma detail_loop_error:
  "snd (detail_loop body xs) = (if list_all one_dash (map fst xs) then None else Some ValueError)"
  by (induction body xs rule: detail_loop.induct)
     (auto simp: one_dash_def split: list.splits)


text \<open>
  The theorem in the interpreter's arithmetic: an ETF worth 1000 in \<^verbatim>\<open>A-x\<close> and 1000 in
  cash, against targets of 0.25 and 0.75. The gap of \<^verbatim>\<open>A-x\<close> is 1, it is kept and gets a
  block; the cash bucket gets none.
\<close>

lemma kahan_single: "kahan 0 0 [v] = fl (fl v)"
  by simp









subsection \<open>Advice per subcategory\<close>









lemma row_wallet_fields:
  "r_name row_wallet = ''wallet''" "r_type row_wallet = ''cash''" "r_amount row_wallet = 1000"
  "r_category row_wallet = LIQUIDITY" "r_value row_wallet = 1000"
  by (simp_all add: row_wallet_def)

lemma row_etf_fields:
  "r_name row_etf = ''index''" "r_type row_etf = ''etf''" "r_amount row_etf = 1000"
  "r_category row_etf = ''A-x''" "r_value row_etf = 1000"
  by (simp_all add: row_etf_def)

lemma row_fund_fields:
  "r_name row_fund = ''growth''" "r_type row_fund = ''fund''" "r_amount row_fund = 10.006"
  "r_category row_fund = ''A-y''" "r_value row_fund = 10.006"
  by (simp_all add: row_fund_def)

lemma row_distinct:
  "row_idle \<noteq> row_wallet" "row_etf \<noteq> row_wallet" "row_fund \<noteq> row_wallet"
  by (simp_all add: row_idle_def row_wallet_def row_etf_def row_fund_def)

lemma liquidity_not_example:
  "LIQUIDITY \<noteq> ''A-x''" "LIQUIDITY \<noteq> ''A-y''" "''A-x'' \<noteq> LIQUIDITY" "''A-y'' \<noteq> LIQUIDITY"
  by (simp_all add: LIQUIDITY_def)






subsection \<open>Lot rounding\<close>

lemma etf_buy_rounds_down:
  assumes "0 < base"
  shows "adjust_shares ''etf'' q base = 100 * of_int \<lfloor>base / 100\<rfloor>
       \<and> adjust_shares ''etf'' q base \<le> base"
proof -
  have "of_int \<lfloor>base / 100\<rfloor> \<le> base / 100" by (rule of_int_floor_le)
  then have "100 * of_int \<lfloor>base / 100\<rfloor> \<le> base" by simp
  with assms show ?thesis by (simp add: adjust_shares_def floordiv_def)
qed

lemma etf_sell_between_lots:
  assumes neg: "base < 0" and frac: "base / 100 \<noteq> of_int \<lfloor>base / 100\<rfloor>"
  shows "(floordiv base 100 + 1) * 100 = - (100 * of_int \<lfloor>- base / 100\<rfloor>)"
proof -
  from frac have "\<lfloor>base / 100\<rfloor> + 1 = \<lceil>base / 100\<rceil>"
    by (simp add: ceiling_altdef)
  also have "\<dots> = - \<lfloor>- (base / 100)\<rfloor>" by (simp add: ceiling_def)
  finally have "of_int \<lfloor>base / 100\<rfloor> + (1::real) = - of_int \<lfloor>- base / 100\<rfloor>"
    by (metis minus_divide_left of_int_1 of_int_add of_int_minus)
  then show ?thesis by (simp add: floordiv_def)
qed

lemma etf_claim_examples:
  "adjust_shares ''etf'' 1000 237 = 200" "adjust_shares ''etf'' 150 (- 237) = - 100"
  by (simp_all add: adjust_shares_def floordiv_def)

lemma fund_claim_example: "adjust_shares ''fund'' 10 (- 12.345) = - 10"
  by (simp add: adjust_shares_def py_round_def round_half_even_def)

lemma quarter_significant:
  "significant_adj (adjustment ex_targets_quarter [row_etf, row_wallet])
     = [(''A-x'', \<lparr>adj_target = 0.25, adj_current = 0.5, adj_diff_ratio = - 0.25,
                  adj_diff_value = - 500, adj_deviation_pct = 1\<rparr>)]"
  by (simp add: significant_adj_def adjustment_def ex_targets_quarter_def dict_merge_def
        adjust_of_def adj_type_def liquidity_not_example series_get_def current_ratio_of_def
        category_value_def groupby_sum_def total_value_def py_sum_def row_etf_fields
        row_wallet_fields)

text \<open>
  The example inputs: both hierarchies pass the checks of \<^const>\<open>save_categories_to_db\<close>,
  and flattening, valuation and the frame give the targets and rows used below.
\<close>

lemma flatten_quarter: "snd (flatten_categories cats_quarter) = ex_targets_quarter"
  by (simp add: flatten_categories_def cats_quarter_def ex_targets_quarter_def LIQUIDITY_def
        MAJOR_FLEXIBLE_def MINOR_CASH_def)

lemma example_hierarchies_valid:
  "fst (save_categories_to_db ieee_arith cats_quarter w0)"
  "fst (save_categories_to_db ieee_arith cats_exit w0)"
  by (simp_all add: save_categories_to_db_def cats_quarter_def cats_exit_def major_check_def
        minor_check_def total_major_def total_minor_def update_one_def w0_def
        ieee_fields fl_eval)

lemma flatten_exit: "snd (flatten_categories cats_exit) = ex_targets"
  by (simp add: flatten_categories_def cats_exit_def ex_targets_def LIQUIDITY_def
        MAJOR_FLEXIBLE_def MINOR_CASH_def)

lemma frame_quarter:
  "make_df [(''index'', asset_index), (''wallet'', asset_wallet)]
     (current_values
        (fst (load_prices ex_get_fund_price ex_unit_price
                [(''index'', asset_index), (''wallet'', asset_wallet)] ([], [])))
        [(''index'', asset_index), (''wallet'', asset_wallet)])
   = Inr [row_etf, row_wallet]"
  by (simp add: make_df_def make_row_def current_values_def current_value_def dict_merge_def
        dict_get_def asset_index_def asset_wallet_def ex_unit_price_def row_etf_def
        row_wallet_def LIQUIDITY_def)

lemma frame_exit:
  "make_df [(''growth'', asset_growth), (''wallet'', asset_wallet)]
     (current_values
        (fst (load_prices ex_unit_price ex_get_price
                [(''growth'', asset_growth), (''wallet'', asset_wallet)] ([], [])))
        [(''growth'', asset_growth), (''wallet'', asset_wallet)])
   = Inr [row_fund, row_wallet]"
  by (simp add: make_df_def make_row_def current_values_def current_value_def dict_merge_def
        dict_get_def asset_growth_def asset_wallet_def ex_unit_price_def row_fund_def
        row_wallet_def LIQUIDITY_def)


text \<open>
  Claim C2 says that a sell of an ETF is the raw magnitude rounded down to a multiple of
  100 and capped by the holding. The code at a raw delta that is an exact multiple: an
  ETF of 1000 units priced 1, half of a portfolio of 2000, against a target ratio of
  0.25. The value gap is \<open>-500\<close>, the raw delta \<open>-500\<close> units, and the advice is to sell
  400, one lot less than the raw magnitude. (A buy of a raw 500 would be 500, and a raw
  sell between two multiples is rounded toward zero, as the lemmas above show.)
\<close>

theorem etf_sell_exact_lot:
  "adjust_shares ''etf'' 1000 (- 500) = - 400
   \<and> portfolio_advice ex_get_fund_price ex_unit_price
         [(''index'', asset_index), (''wallet'', asset_wallet)] cats_quarter =
       Inr (Rebalance [(''A'', 1)]
         [\<lparr>b_category = ''A-x'',
           b_adjust = \<lparr>adj_target = 0.25, adj_current = 0.5, adj_diff_ratio = - 0.25,
                       adj_diff_value = - 500, adj_deviation_pct = 1\<rparr>,
           b_body = Holdings [Decrease ''index'' 400 400]\<rparr>]
         None)"
proof -
  have shares: "adjust_shares ''etf'' 1000 (- 500) = - 400"
    by (simp add: adjust_shares_def floordiv_def)
  have assets: "category_assets [row_etf, row_wallet] ''A-x'' = [row_etf]"
    by (simp add: category_assets_def row_etf_fields row_wallet_fields liquidity_not_example)
  have total: "total_value [row_etf, row_wallet] = 2000"
    by (simp add: total_value_def py_sum_def row_etf_fields row_wallet_fields)
  have targets: "ex_targets_quarter \<noteq> []" by (simp add: ex_targets_quarter_def)
  have unit: "unit_value_of row_etf = 1"
    by (simp add: unit_value_of_def row_etf_fields)
  have advice: "asset_suggestion (- 500) 1000 row_etf = Decrease ''index'' 400 400"
    by (simp add: asset_suggestion_def np_div_def row_etf_fields unit shares show_advice_def)
  have majors: "major_deviation (significant_adj (adjustment ex_targets_quarter [row_etf, row_wallet]))
      = [(''A'', 1)]"
    by (simp add: quarter_significant major_deviation_def dict_get_def)
  have blocks: "detail_blocks [row_etf, row_wallet]
        (significant_adj (adjustment ex_targets_quarter [row_etf, row_wallet]))
      = ([\<lparr>b_category = ''A-x'',
           b_adjust = \<lparr>adj_target = 0.25, adj_current = 0.5, adj_diff_ratio = - 0.25,
                       adj_diff_value = - 500, adj_deviation_pct = 1\<rparr>,
           b_body = Holdings [Decrease ''index'' 400 400]\<rparr>], None)"
    by (simp add: quarter_significant category_block_def assets py_sum_def row_etf_fields advice)
  have "rebalance_advice ex_targets_quarter [row_etf, row_wallet] =
       Rebalance (major_deviation (significant_adj (adjustment ex_targets_quarter [row_etf, row_wallet])))
         (fst (detail_blocks [row_etf, row_wallet]
                 (significant_adj (adjustment ex_targets_quarter [row_etf, row_wallet]))))
         (snd (detail_blocks [row_etf, row_wallet]
                 (significant_adj (adjustment ex_targets_quarter [row_etf, row_wallet]))))"
    unfolding rebalance_advice_def using targets total by (simp add: quarter_significant)
  then have "portfolio_advice ex_get_fund_price ex_unit_price
         [(''index'', asset_index), (''wallet'', asset_wallet)] cats_quarter =
       Inr (Rebalance [(''A'', 1)]
         [\<lparr>b_category = ''A-x'',
           b_adjust = \<lparr>adj_target = 0.25, adj_current = 0.5, adj_diff_ratio = - 0.25,
                       adj_diff_value = - 500, adj_deviation_pct = 1\<rparr>,
           b_body = Holdings [Decrease ''index'' 400 400]\<rparr>]
         None)"
    unfolding portfolio_advice_def frame_quarter flatten_quarter majors blocks by simp
  with shares show ?thesis by simp
qed

lemma exit_significant:
  "significant_adj (adjustment ex_targets [row_fund, row_wallet])
     = [(''A-x'', \<lparr>adj_target = 0.5, adj_current = 0, adj_diff_ratio = 0.5,
                  adj_diff_value = 505.003, adj_deviation_pct = 1\<rparr>),
        (''A-y'', \<lparr>adj_target = 0, adj_current = 5003 / 505003,
                  adj_diff_ratio = - (5003 / 505003),
                  adj_diff_value = - 10.006, adj_deviation_pct = 1\<rparr>)]"
  by (simp add: significant_adj_def adjustment_def ex_targets_def dict_merge_def adjust_of_def
        adj_type_def liquidity_not_example series_get_def current_ratio_of_def category_value_def
        groupby_sum_def total_value_def py_sum_def row_fund_fields row_wallet_fields)

text \<open>
  Claim C7 says that a sell of a fund is capped at the quantity held. The code at a
  holding of 10.006 units priced 1: a raw delta of \<open>-12.345\<close> is capped to
  \<^verbatim>\<open>-round(current_shares, 2)\<close>, which is \<open>-10.01\<close>; and with a target ratio of 0 for its
  subcategory (value gap \<open>-10.006\<close>) the advice for the holding is to sell 10.01 units,
  more than the 10.006 held.
\<close>

theorem fund_sell_cap_rounds_up:
  "adjust_shares ''fund'' 10.006 (- 12.345) = - 10.01
   \<and> a_amount asset_growth = 10.006
   \<and> a_amount asset_growth < 10.01
   \<and> portfolio_advice ex_unit_price ex_get_price
         [(''growth'', asset_growth), (''wallet'', asset_wallet)] cats_exit =
       Inr (Rebalance [(''A'', 2)]
         [\<lparr>b_category = ''A-x'',
           b_adjust = \<lparr>adj_target = 0.5, adj_current = 0, adj_diff_ratio = 0.5,
                       adj_diff_value = 505.003, adj_deviation_pct = 1\<rparr>,
           b_body = No_holdings ''x''\<rparr>,
          \<lparr>b_category = ''A-y'',
           b_adjust = \<lparr>adj_target = 0, adj_current = 5003 / 505003,
                       adj_diff_ratio = - (5003 / 505003),
                       adj_diff_value = - 10.006, adj_deviation_pct = 1\<rparr>,
           b_body = Holdings [Decrease ''growth'' 10.01 10.01]\<rparr>]
         None)"
proof -
  have r1: "py_round (- (2469 / 200)) 2 = - (617 / 50)"
    by (simp add: py_round_def round_half_even_def)
  have r2: "py_round (5003 / 500) 2 = 1001 / 100"
    by (simp add: py_round_def round_half_even_def)
  have r3: "py_round (- (5003 / 500)) 2 = - (1001 / 100)"
    by (simp add: py_round_def round_half_even_def)
  have a: "adjust_shares ''fund'' 10.006 (- 12.345) = - 10.01"
    by (simp add: adjust_shares_def r1 r2)
  have b: "adjust_shares ''fund'' (5003 / 500) (- (5003 / 500)) = - (1001 / 100)"
    by (simp add: adjust_shares_def r2 r3)
  have unit: "unit_value_of row_fund = 1"
    by (simp add: unit_value_of_def row_fund_fields)
  have c: "asset_suggestion (- (5003 / 500)) (5003 / 500) row_fund
      = Decrease ''growth'' (1001 / 100) (1001 / 100)"
    by (simp add: asset_suggestion_def np_div_def row_fund_fields unit b show_advice_def)
  have assets: "category_assets [row_fund, row_wallet] ''A-y'' = [row_fund]"
    "category_assets [row_fund, row_wallet] ''A-x'' = []"
    by (simp_all add: category_assets_def row_fund_fields row_wallet_fields liquidity_not_example)
  have total: "total_value [row_fund, row_wallet] = 1010.006"
    by (simp add: total_value_def py_sum_def row_fund_fields row_wallet_fields)
  have targets: "ex_targets \<noteq> []" by (simp add: ex_targets_def)
  have majors: "major_deviation (significant_adj (adjustment ex_targets [row_fund, row_wallet]))
      = [(''A'', 2)]"
    by (simp add: exit_significant major_deviation_def dict_get_def)
  have blocks: "detail_blocks [row_fund, row_wallet]
        (significant_adj (adjustment ex_targets [row_fund, row_wallet]))
      = ([\<lparr>b_category = ''A-x'',
           b_adjust = \<lparr>adj_target = 0.5, adj_current = 0, adj_diff_ratio = 0.5,
                       adj_diff_value = 505.003, adj_deviation_pct = 1\<rparr>,
           b_body = No_holdings ''x''\<rparr>,
          \<lparr>b_category = ''A-y'',
           b_adjust = \<lparr>adj_target = 0, adj_current = 5003 / 505003,
                       adj_diff_ratio = - (5003 / 505003),
                       adj_diff_value = - 10.006, adj_deviation_pct = 1\<rparr>,
           b_body = Holdings [Decrease ''growth'' 10.01 10.01]\<rparr>], None)"
    by (simp add: exit_significant category_block_def assets py_sum_def row_fund_fields c)
  have "rebalance_advice ex_targets [row_fund, row_wallet] =
       Rebalance (major_deviation (significant_adj (adjustment ex_targets [row_fund, row_wallet])))
         (fst (detail_blocks [row_fund, row_wallet]
                 (significant_adj (adjustment ex_targets [row_fund, row_wallet]))))
         (snd (detail_blocks [row_fund, row_wallet]
                 (significant_adj (adjustment ex_targets [row_fund, row_wallet]))))"
    unfolding rebalance_advice_def using targets total by (simp add: exit_significant)
  then have "portfolio_advice ex_unit_price ex_get_price
         [(''growth'', asset_growth), (''wallet'', asset_wallet)] cats_exit =
       Inr (Rebalance [(''A'', 2)]
         [\<lparr>b_category = ''A-x'',
           b_adjust = \<lparr>adj_target = 0.5, adj_current = 0, adj_diff_ratio = 0.5,
                       adj_diff_value = 505.003, adj_deviation_pct = 1\<rparr>,
           b_body = No_holdings ''x''\<rparr>,
          \<lparr>b_category = ''A-y'',
           b_adjust = \<lparr>adj_target = 0, adj_current = 5003 / 505003,
                       adj_diff_ratio = - (5003 / 505003),
                       adj_diff_value = - 10.006, adj_deviation_pct = 1\<rparr>,
           b_body = Holdings [Decrease ''growth'' 10.01 10.01]\<rparr>]
         None)"
    unfolding portfolio_advice_def frame_exit flatten_exit majors blocks by simp
  with a show ?thesis by (simp add: asset_growth_def)
qed

end
